theory Spec2Isabelle
  imports Main "HOL-Library.AList"
begin

section \<open>Data model\<close>

text \<open>
  The script \<^verbatim>\<open>src/main.py\<close> dumps one MySQL database per day, compresses the dump,
  uploads it to an OSS bucket and sweeps old local backups.  Its effects are on two
  stores: the local backup directory and the bucket.  Both are association lists from a
  name to the bytes stored under it; the order of the list is the order in which the
  directory listing (\<^verbatim>\<open>glob\<close>) or the bucket listing (\<^verbatim>\<open>ObjectIterator\<close>) yields the
  names.  A local name is one path component inside \<^verbatim>\<open>local_backup_dir\<close> (the database
  name holds no path separator), and names are ASCII.
\<close>

type_synonym bytes = string
type_synonym store = "(string \<times> bytes) list"

text \<open>
  The Python exceptions that the modelled calls raise.  \<open>OSError\<close> and \<open>OssError\<close> stand
  for their subclasses too (\<^verbatim>\<open>FileNotFoundError\<close>, \<^verbatim>\<open>oss2.exceptions.ClientError\<close>,
  \<^verbatim>\<open>RequestError\<close> and the like).
\<close>

datatype exn = RuntimeError | OSError | ValueError | UnicodeDecodeError | OverflowError | OssError

datatype level = INFO | ERROR | CRITICAL

text \<open>
  The log records of the script, one constructor per \<^verbatim>\<open>logger\<close> call of the source,
  with the values interpolated into the message as arguments.
\<close>

datatype logmsg =
    Local_backup_ok string
  | Backup_failed exn
  | Oss_upload_ok string
  | Oss_upload_failed exn
  | Local_deleted string
  | Local_delete_failed exn
  | Oss_deleted string
  | Oss_file_failed string exn
  | Flow_done
  | Flow_aborted exn
  | Missing_env "string list"

datatype operation = Run_mysqldump | Upload_to_oss | Clean_local_backups | Clean_oss_backups

text \<open>
  What a run does is recorded in order: the entry of each method of \<^verbatim>\<open>BackupManager\<close>,
  each call to an external collaborator (file system, dump process, bucket), whether or
  not the call succeeds, and each log record.
\<close>

datatype event =
    Call operation
  | Mkdir
  | Open_wb string
  | Subprocess_run
  | Gzip_done string
  | Unlink string
  | Glob
  | Put_object string
  | List_objects string
  | Delete_object string
  | Logger level logmsg

record state =
  local_dir :: store
  oss :: store
  trace :: "event list"

text \<open>
  The entries of \<^verbatim>\<open>CONFIG\<close> that decide names and retention.  The connection settings
  (user, password, host, port, path of the dump tool, endpoint, bucket) only reach the
  external collaborators, whose outcome is part of the environment below.
\<close>

record config =
  mysql_database :: string
  oss_prefix :: string
  keep_local_days :: int
  keep_oss_days :: int

record manager =
  cfg :: config
  today :: string

datatype date = Date (year: int) (month: int) (day: int)

text \<open>A clock reading: the calendar date and the microseconds since midnight.\<close>

datatype datetime = Datetime (dt_date: date) (dt_micros: nat)

text \<open>
  The outcomes of the external collaborators during one run: the construction of the
  bucket client (\<open>bucket_init = Some x\<close>: \<^verbatim>\<open>oss2.Auth\<close> or \<^verbatim>\<open>oss2.Bucket\<close> raises
  \<open>x\<close> on the configured credentials, endpoint or bucket name), the dump process
  (\<open>dump_launch = Some x\<close>: \<^verbatim>\<open>subprocess.run\<close> itself raises \<open>x\<close> and no process runs;
  otherwise its return code, its output, and whether its error stream decodes as
  UTF-8), the compression (\<open>gzip_fault = Some part\<close>: an I/O error strikes when only the
  bytes \<open>part\<close> have reached the freshly opened compressed file), the upload, the files
  the operating system refuses to unlink, the listing of the bucket
  (\<open>list_fault = Some n\<close>: the iterator raises after it has yielded \<open>n\<close> keys), the objects
  the bucket refuses to delete, and the two clock readings (\<^verbatim>\<open>__init__\<close> and the
  retention sweep).
\<close>

record env =
  mkdir_fails :: bool
  bucket_init :: "exn option"
  now_init :: datetime
  dump_launch :: "exn option"
  dump_returncode :: int
  dump_stderr_utf8 :: bool
  dump_stdout :: bytes
  gzip :: "bytes \<Rightarrow> bytes"
  gzip_fault :: "bytes option"
  unlink_fails :: "string \<Rightarrow> bool"
  put_result :: "exn option"
  list_fault :: "nat option"
  delete_fails :: "string \<Rightarrow> bool"
  now :: datetime

definition log :: "level \<Rightarrow> logmsg \<Rightarrow> state \<Rightarrow> state" where
  "log lvl msg s = s\<lparr>trace := trace s @ [Logger lvl msg]\<rparr>"

definition emit :: "event \<Rightarrow> state \<Rightarrow> state" where
  "emit e s = s\<lparr>trace := trace s @ [e]\<rparr>"

definition exists_file :: "string \<Rightarrow> state \<Rightarrow> bool" where
  "exists_file name s = (map_of (local_dir s) name \<noteq> None)"


section \<open>Dates: \<^verbatim>\<open>datetime.strptime\<close>, \<^verbatim>\<open>timedelta\<close> and comparison\<close>

definition is_leap :: "int \<Rightarrow> bool" where
  "is_leap y = (y mod 4 = 0 \<and> (y mod 100 \<noteq> 0 \<or> y mod 400 = 0))"

definition days_in_month :: "int \<Rightarrow> int \<Rightarrow> int" where
  "days_in_month y m =
     (if m = 2 then (if is_leap y then 29 else 28)
      else if m = 4 \<or> m = 6 \<or> m = 9 \<or> m = 11 then 30 else 31)"

definition days_before_year :: "int \<Rightarrow> int" where
  "days_before_year y = (y - 1) * 365 + (y - 1) div 4 - (y - 1) div 100 + (y - 1) div 400"

definition days_before_month :: "int \<Rightarrow> int \<Rightarrow> int" where
  "days_before_month y m =
     [0, 31, 59, 90, 120, 151, 181, 212, 243, 273, 304, 334] ! nat (m - 1)
       + (if 2 < m \<and> is_leap y then 1 else 0)"

text \<open>The proleptic Gregorian ordinal of a date (\<^verbatim>\<open>date.toordinal\<close>): 0001-01-01 is day 1.\<close>

definition ymd2ord :: "date \<Rightarrow> int" where
  "ymd2ord d = days_before_year (year d) + days_before_month (year d) (month d) + day d"

definition valid_date :: "date \<Rightarrow> bool" where
  "valid_date d =
     (1 \<le> year d \<and> year d \<le> 9999 \<and> 1 \<le> month d \<and> month d \<le> 12
        \<and> 1 \<le> day d \<and> day d \<le> days_in_month (year d) (month d))"

definition is_digit :: "char \<Rightarrow> bool" where
  "is_digit c = (c \<in> set ''0123456789'')"

text \<open>The value of a decimal digit: its code point less that of \<open>0\<close>.\<close>

definition digit_val :: "char \<Rightarrow> int" where
  "digit_val c = of_char c - 48"

text \<open>
  The format \<^verbatim>\<open>%Y%m%d\<close> is matched by the regular expression
  \<^verbatim>\<open>(\d\d\d\d)(1[0-2]|0[1-9]|[1-9])(3[0-1]|[1-2]\d|0[1-9]|[1-9]| [1-9])\<close>
  against a prefix of the text.  Each function lists the ways its group can match at the
  head of the text, as (value, rest), in the order the regular expression tries them.
\<close>

fun match_Y :: "string \<Rightarrow> (int \<times> string) list" where
  "match_Y (a # b # c # d # rest) =
     (if is_digit a \<and> is_digit b \<and> is_digit c \<and> is_digit d
      then [(1000 * digit_val a + 100 * digit_val b + 10 * digit_val c + digit_val d, rest)]
      else [])"
| "match_Y _ = []"

definition match_m :: "string \<Rightarrow> (int \<times> string) list" where
  "match_m s =
     (case s of
        a # b # rest \<Rightarrow>
          (if a = CHR ''1'' \<and> b \<in> set ''012'' then [(10 + digit_val b, rest)] else [])
          @ (if a = CHR ''0'' \<and> b \<in> set ''123456789'' then [(digit_val b, rest)] else [])
      | _ \<Rightarrow> [])
     @ (case s of
          a # rest \<Rightarrow> (if a \<in> set ''123456789'' then [(digit_val a, rest)] else [])
        | _ \<Rightarrow> [])"

definition match_d :: "string \<Rightarrow> (int \<times> string) list" where
  "match_d s =
     (case s of
        a # b # rest \<Rightarrow>
          (if a = CHR ''3'' \<and> b \<in> set ''01'' then [(30 + digit_val b, rest)] else [])
          @ (if a \<in> set ''12'' \<and> is_digit b then [(10 * digit_val a + digit_val b, rest)] else [])
          @ (if a = CHR ''0'' \<and> b \<in> set ''123456789'' then [(digit_val b, rest)] else [])
      | _ \<Rightarrow> [])
     @ (case s of
          a # rest \<Rightarrow> (if a \<in> set ''123456789'' then [(digit_val a, rest)] else [])
        | _ \<Rightarrow> [])
     @ (case s of
          a # b # rest \<Rightarrow>
            (if a = CHR '' '' \<and> b \<in> set ''123456789'' then [(digit_val b, rest)] else [])
        | _ \<Rightarrow> [])"

text \<open>
  All matches of the whole expression, in the order of the backtracking search; the
  first one is the match that \<^verbatim>\<open>re.match\<close> returns.
\<close>

definition match_Ymd :: "string \<Rightarrow> (date \<times> string) list" where
  "match_Ymd s =
     concat (map (\<lambda>(y, r1).
       concat (map (\<lambda>(m, r2).
         map (\<lambda>(d, r3). (Date y m d, r3)) (match_d r2)) (match_m r1))) (match_Y s))"

text \<open>
  \<^verbatim>\<open>datetime.strptime(text, "%Y%m%d")\<close>: \<^verbatim>\<open>ValueError\<close> when the expression does not
  match, when text remains after the match, and when the numbers are no calendar date.
  The result is that date at midnight.
\<close>

definition strptime_Ymd :: "string \<Rightarrow> exn + date" where
  "strptime_Ymd s =
     (case match_Ymd s of
        [] \<Rightarrow> Inl ValueError
      | (d, rest) # _ \<Rightarrow>
          if rest \<noteq> [] then Inl ValueError
          else if valid_date d then Inr d else Inl ValueError)"

text \<open>
  \<^verbatim>\<open>datetime.now() - timedelta(days=n)\<close>: the date moves by \<open>n\<close> days and the time of
  day stays.  A result outside the years 1 to 9999 is an \<^verbatim>\<open>OverflowError\<close> (as is a
  \<^verbatim>\<open>timedelta\<close> beyond its own range, which always leaves those years).  The cutoff is kept
  as the ordinal of its date and its time of day; the order of two clock readings is the
  lexicographic order of these pairs.
\<close>

definition cutoff_date :: "datetime \<Rightarrow> int \<Rightarrow> exn + (int \<times> nat)" where
  "cutoff_date t n =
     (let ord = ymd2ord (dt_date t) - n
      in if ord < 1 \<or> 3652059 < ord then Inl OverflowError else Inr (ord, dt_micros t))"

text \<open>\<^verbatim>\<open>file_date < cutoff_date\<close>, with \<open>file_date\<close> a date at midnight.\<close>

definition before_cutoff :: "date \<Rightarrow> int \<times> nat \<Rightarrow> bool" where
  "before_cutoff d c = (ymd2ord d < fst c \<or> (ymd2ord d = fst c \<and> 0 < snd c))"

text \<open>
  \<^verbatim>\<open>strftime("%Y%m%d")\<close> of a clock reading whose year has four digits.
\<close>

definition digit_char :: "int \<Rightarrow> char" where
  "digit_char n = ''0123456789'' ! nat (n mod 10)"

definition strftime_Ymd :: "date \<Rightarrow> string" where
  "strftime_Ymd d =
     [digit_char (year d div 1000), digit_char (year d div 100), digit_char (year d div 10),
      digit_char (year d),
      digit_char (month d div 10), digit_char (month d),
      digit_char (day d div 10), digit_char (day d)]"


section \<open>File names\<close>

text \<open>\<^verbatim>\<open>text.endswith(suf)\<close> and \<^verbatim>\<open>text.startswith(pre)\<close>.\<close>

definition endswith :: "string \<Rightarrow> string \<Rightarrow> bool" where
  "endswith suf s = (length suf \<le> length s \<and> drop (length s - length suf) s = suf)"

definition startswith :: "string \<Rightarrow> string \<Rightarrow> bool" where
  "startswith pre s = (take (length pre) s = pre)"

text \<open>\<^verbatim>\<open>text.split(sep)[-1]\<close>: what follows the last separator, or the whole text.\<close>

definition last_part :: "char \<Rightarrow> string \<Rightarrow> string" where
  "last_part sep s = rev (takeWhile (\<lambda>c. c \<noteq> sep) (rev s))"

text \<open>\<^verbatim>\<open>text.replace(".sql.gz", "")\<close>: every occurrence is removed, from left to right.\<close>

function remove_sql_gz :: "string \<Rightarrow> string" where
  "remove_sql_gz [] = []"
| "remove_sql_gz (c # cs) =
     (if startswith ''.sql.gz'' (c # cs) then remove_sql_gz (drop 6 cs)
      else c # remove_sql_gz cs)"
  by pat_completeness auto
termination
  by (relation "measure length") auto

text \<open>The text handed to \<^verbatim>\<open>strptime\<close> by both sweeps.\<close>

definition file_date_str :: "string \<Rightarrow> string" where
  "file_date_str name = remove_sql_gz (last_part CHR ''_'' name)"

text \<open>\<^verbatim>\<open>Path(key).name\<close> of a key that does not end in a separator.\<close>

definition path_name :: "string \<Rightarrow> string" where
  "path_name key = last_part CHR ''/'' key"

text \<open>
  \<^verbatim>\<open>Path.suffix\<close> and \<^verbatim>\<open>Path.with_suffix\<close> on the final component: the suffix starts at
  the last dot, unless that dot is the first or the last character.
\<close>

definition path_suffix :: "string \<Rightarrow> string" where
  "path_suffix name =
     (let ext = last_part CHR ''.'' name
      in if CHR ''.'' \<in> set name \<and> length ext + 1 < length name \<and> ext \<noteq> []
         then CHR ''.'' # ext else [])"

definition with_suffix :: "string \<Rightarrow> string \<Rightarrow> string" where
  "with_suffix name suf = take (length name - length (path_suffix name)) name @ suf"

text \<open>The two paths of \<^verbatim>\<open>run_mysqldump\<close>, inside the local backup directory.\<close>

definition dump_file :: "manager \<Rightarrow> string" where
  "dump_file self = mysql_database (cfg self) @ ''_'' @ today self @ ''.sql''"

definition gz_file :: "manager \<Rightarrow> string" where
  "gz_file self = with_suffix (dump_file self) ''.sql.gz''"

section \<open>The operations of \<^verbatim>\<open>BackupManager\<close>\<close>

text \<open>Opening for writing and writing replace what the name held (or create it).\<close>

definition write_file :: "string \<Rightarrow> bytes \<Rightarrow> state \<Rightarrow> state" where
  "write_file name data s = s\<lparr>local_dir := AList.update name data (local_dir s)\<rparr>"

text \<open>\<^verbatim>\<open>Path.unlink\<close>: an \<^verbatim>\<open>OSError\<close> when the file is missing or the system refuses.\<close>

definition unlink :: "env \<Rightarrow> string \<Rightarrow> state \<Rightarrow> exn option \<times> state" where
  "unlink e name s =
     (let s1 = emit (Unlink name) s
      in if \<not> exists_file name s1 \<or> unlink_fails e name then (Some OSError, s1)
         else (None, s1\<lparr>local_dir := AList.delete name (local_dir s1)\<rparr>))"

text \<open>
  The \<^verbatim>\<open>except Exception\<close> handler of \<^verbatim>\<open>run_mysqldump\<close>: log, unlink the raw dump if
  it exists, raise again.  An error of that unlink is the exception that leaves.
\<close>

definition backup_failed :: "manager \<Rightarrow> env \<Rightarrow> exn \<Rightarrow> state \<Rightarrow> (exn + string) \<times> state" where
  "backup_failed self e x s =
     (let s1 = log ERROR (Backup_failed x) s
      in if exists_file (dump_file self) s1
         then (case unlink e (dump_file self) s1 of
                 (Some x', s2) \<Rightarrow> (Inl x', s2)
               | (None, s2) \<Rightarrow> (Inl x, s2))
         else (Inl x, s1))"

text \<open>
  What line 89 raises on a non-zero return code: the message of the \<^verbatim>\<open>RuntimeError\<close> is
  built from the decoded error stream, and the decoding raises first if the stream is
  not UTF-8.
\<close>

definition dump_error :: "env \<Rightarrow> exn" where
  "dump_error e = (if dump_stderr_utf8 e then RuntimeError else UnicodeDecodeError)"

text \<open>
  \<^verbatim>\<open>run_mysqldump\<close>: the raw file is opened and the dump process started, which may
  itself raise; the process writes its output to the raw file; a non-zero return code
  raises.  Then the raw file is read and its compressed form written to the
  \<^verbatim>\<open>.sql.gz\<close> file; then the raw file is unlinked.  The result is the path of the
  compressed file, or the exception raised.
\<close>

definition run_mysqldump :: "manager \<Rightarrow> env \<Rightarrow> state \<Rightarrow> (exn + string) \<times> state" where
  "run_mysqldump self e s =
     (let s1 = write_file (dump_file self) []
                 (emit (Open_wb (dump_file self)) (emit (Call Run_mysqldump) s));
          s2 = write_file (dump_file self) (dump_stdout e) (emit Subprocess_run s1)
      in case dump_launch e of
           Some x \<Rightarrow> backup_failed self e x (emit Subprocess_run s1)
         | None \<Rightarrow>
             if dump_returncode e \<noteq> 0 then backup_failed self e (dump_error e) s2
             else
               (let s3 = write_file (gz_file self) [] (emit (Open_wb (gz_file self)) s2)
                in case gzip_fault e of
                     Some part \<Rightarrow>
                       backup_failed self e OSError (write_file (gz_file self) part s3)
                   | None \<Rightarrow>
                       (let s4 = emit (Gzip_done (gz_file self))
                                   (write_file (gz_file self) (gzip e (dump_stdout e)) s3)
                        in case unlink e (dump_file self) s4 of
                             (Some x, s5) \<Rightarrow> backup_failed self e x s5
                           | (None, s5) \<Rightarrow>
                               (Inr (gz_file self),
                                log INFO (Local_backup_ok (gz_file self)) s5))))"

text \<open>
  \<^verbatim>\<open>upload_to_oss\<close>: the object \<^verbatim>\<open>oss_prefix + file_path.name\<close> receives the bytes of
  the file.  Only an \<^verbatim>\<open>OssError\<close> is logged here; every exception leaves.
\<close>

definition upload_to_oss :: "manager \<Rightarrow> env \<Rightarrow> string \<Rightarrow> state \<Rightarrow> exn option \<times> state" where
  "upload_to_oss self e file_path s =
     (let object_name = oss_prefix (cfg self) @ file_path;
          s1 = emit (Put_object object_name) (emit (Call Upload_to_oss) s)
      in case map_of (local_dir s1) file_path of
           None \<Rightarrow> (Some OSError, s1)
         | Some data \<Rightarrow>
             (case put_result e of
                None \<Rightarrow>
                  (None, log INFO (Oss_upload_ok object_name)
                           (s1\<lparr>oss := AList.update object_name data (oss s1)\<rparr>))
              | Some x \<Rightarrow>
                  (Some x, if x = OssError then log ERROR (Oss_upload_failed x) s1 else s1)))"

text \<open>
  The loop of \<^verbatim>\<open>clean_local_backups\<close> over the names that \<^verbatim>\<open>glob("*.sql.gz")\<close>
  yielded.  \<^verbatim>\<open>strptime\<close> stands outside the \<^verbatim>\<open>try\<close>: its \<^verbatim>\<open>ValueError\<close> leaves the
  loop.  An error of \<^verbatim>\<open>unlink\<close> is logged and the loop goes on.
\<close>

fun local_loop :: "env \<Rightarrow> int \<times> nat \<Rightarrow> string list \<Rightarrow> state \<Rightarrow> exn option \<times> state" where
  "local_loop e c [] s = (None, s)"
| "local_loop e c (f # fs) s =
     (case strptime_Ymd (file_date_str f) of
        Inl x \<Rightarrow> (Some x, s)
      | Inr d \<Rightarrow>
          if before_cutoff d c
          then (case unlink e f s of
                  (None, s1) \<Rightarrow> local_loop e c fs (log INFO (Local_deleted f) s1)
                | (Some x, s1) \<Rightarrow> local_loop e c fs (log ERROR (Local_delete_failed x) s1))
          else local_loop e c fs s)"

definition glob_sql_gz :: "state \<Rightarrow> string list" where
  "glob_sql_gz s = filter (endswith ''.sql.gz'') (map fst (local_dir s))"

definition clean_local_backups :: "manager \<Rightarrow> env \<Rightarrow> state \<Rightarrow> exn option \<times> state" where
  "clean_local_backups self e s =
     (let s0 = emit (Call Clean_local_backups) s
      in case cutoff_date (now e) (keep_local_days (cfg self)) of
           Inl x \<Rightarrow> (Some x, s0)
         | Inr c \<Rightarrow> local_loop e c (glob_sql_gz s0) (emit Glob s0))"

text \<open>\<^verbatim>\<open>bucket.delete_object\<close>: the bucket may refuse; a missing key is no error.\<close>

definition delete_object :: "env \<Rightarrow> string \<Rightarrow> state \<Rightarrow> exn option \<times> state" where
  "delete_object e key s =
     (let s1 = emit (Delete_object key) s
      in if delete_fails e key then (Some OssError, s1)
         else (None, s1\<lparr>oss := AList.delete key (oss s1)\<rparr>))"

text \<open>
  The loop of \<^verbatim>\<open>clean_oss_backups\<close> over the listed keys.  A key that does not end in
  \<^verbatim>\<open>.sql.gz\<close> is passed over; parsing and deletion stand inside the \<^verbatim>\<open>try\<close>, whose
  handler logs and goes on.
\<close>

fun oss_loop :: "env \<Rightarrow> int \<times> nat \<Rightarrow> string list \<Rightarrow> state \<Rightarrow> state" where
  "oss_loop e c [] s = s"
| "oss_loop e c (k # ks) s =
     (if \<not> endswith ''.sql.gz'' k then oss_loop e c ks s
      else (case strptime_Ymd (file_date_str (path_name k)) of
              Inl x \<Rightarrow> oss_loop e c ks (log ERROR (Oss_file_failed k x) s)
            | Inr d \<Rightarrow>
                if before_cutoff d c
                then (case delete_object e k s of
                        (Some x, s1) \<Rightarrow> oss_loop e c ks (log ERROR (Oss_file_failed k x) s1)
                      | (None, s1) \<Rightarrow> oss_loop e c ks (log INFO (Oss_deleted k) s1))
                else oss_loop e c ks s))"

text \<open>The keys under the prefix, as the bucket holds them when the listing starts.\<close>

definition list_objects :: "string \<Rightarrow> state \<Rightarrow> string list" where
  "list_objects pre s = filter (startswith pre) (map fst (oss s))"

text \<open>
  \<^verbatim>\<open>clean_oss_backups\<close>: the iterator over the bucket stands outside the \<^verbatim>\<open>try\<close>.  If
  the listing fails, the keys it had yielded have been handled and its exception leaves
  the sweep.
\<close>

definition clean_oss_backups :: "manager \<Rightarrow> env \<Rightarrow> state \<Rightarrow> exn option \<times> state" where
  "clean_oss_backups self e s =
     (let s0 = emit (Call Clean_oss_backups) s
      in case cutoff_date (now e) (keep_oss_days (cfg self)) of
           Inl x \<Rightarrow> (Some x, s0)
         | Inr c \<Rightarrow>
             (let keys = list_objects (oss_prefix (cfg self)) s0;
                  s1 = emit (List_objects (oss_prefix (cfg self))) s0
              in case list_fault e of
                   None \<Rightarrow> (None, oss_loop e c keys s1)
                 | Some n \<Rightarrow> (Some OssError, oss_loop e c (take n keys) s1)))"

text \<open>
  \<^verbatim>\<open>execute\<close>: dump and compress, upload, sweep the local directory; the call of
  \<^verbatim>\<open>clean_oss_backups\<close> is commented out in the source.  Any exception is logged as
  critical and gives \<open>False\<close>.
\<close>

definition execute :: "manager \<Rightarrow> env \<Rightarrow> state \<Rightarrow> bool \<times> state" where
  "execute self e s =
     (case run_mysqldump self e s of
        (Inl x, s1) \<Rightarrow> (False, log CRITICAL (Flow_aborted x) s1)
      | (Inr backup_file, s1) \<Rightarrow>
          (case upload_to_oss self e backup_file s1 of
             (Some x, s2) \<Rightarrow> (False, log CRITICAL (Flow_aborted x) s2)
           | (None, s2) \<Rightarrow>
               (case clean_local_backups self e s2 of
                  (Some x, s3) \<Rightarrow> (False, log CRITICAL (Flow_aborted x) s3)
                | (None, s3) \<Rightarrow> (True, log INFO Flow_done s3))))"

text \<open>
  \<^verbatim>\<open>BackupManager.__init__\<close>: the date of the day as text, the local directory created
  if absent, and the bucket client built from the credentials, the endpoint and the
  bucket name.  An error of either is an exception nobody catches.
\<close>

definition BackupManager_init :: "config \<Rightarrow> env \<Rightarrow> state \<Rightarrow> (exn + manager) \<times> state" where
  "BackupManager_init c e s =
     (let s1 = emit Mkdir s
      in if mkdir_fails e then (Inl OSError, s1)
         else (case bucket_init e of
                 Some x \<Rightarrow> (Inl x, s1)
               | None \<Rightarrow> (Inr \<lparr>cfg = c, today = strftime_Ymd (dt_date (now_init e))\<rparr>, s1)))"

definition required_envs :: "string list" where
  "required_envs =
     [''MYSQL_USER'', ''MYSQL_PASSWORD'', ''MYSQL_DATABASE'',
      ''OSS_ACCESS_KEY_ID'', ''OSS_ACCESS_KEY_SECRET'',
      ''OSS_ENDPOINT'', ''OSS_BUCKET'']"

text \<open>
  The main block: the exit status and the final state.  \<open>getenv\<close> is the process
  environment and \<open>c\<close> the \<^verbatim>\<open>CONFIG\<close> loaded from it; an exception that nobody catches
  ends the interpreter with status 1.
\<close>

definition main :: "(string \<Rightarrow> string option) \<Rightarrow> config \<Rightarrow> env \<Rightarrow> state \<Rightarrow> int \<times> state" where
  "main getenv c e s =
     (let missing = filter (\<lambda>var. case getenv var of None \<Rightarrow> True | Some v \<Rightarrow> v = [])
                      required_envs
      in if missing \<noteq> [] then (1, log ERROR (Missing_env missing) s)
         else (case BackupManager_init c e s of
                 (Inl x, s1) \<Rightarrow> (1, s1)
               | (Inr self, s1) \<Rightarrow>
                   (case execute self e s1 of
                      (success, s2) \<Rightarrow> (if success then 0 else 1, s2))))"


section \<open>Notions for stating the properties\<close>

text \<open>
  The test both sweeps apply to a name once the cutoff is known: the date in the name
  parses and, taken at midnight, lies before the cutoff.
\<close>

definition expired :: "int \<times> nat \<Rightarrow> string \<Rightarrow> bool" where
  "expired c name =
     (case strptime_Ymd (file_date_str name) of Inl x \<Rightarrow> False | Inr d \<Rightarrow> before_cutoff d c)"

text \<open>The same test with the cutoff that \<^verbatim>\<open>clean_local_backups\<close> computes.\<close>

definition expired_local :: "manager \<Rightarrow> env \<Rightarrow> string \<Rightarrow> bool" where
  "expired_local self e name =
     (case cutoff_date (now e) (keep_local_days (cfg self)) of
        Inl x \<Rightarrow> False
      | Inr c \<Rightarrow> expired c name)"

text \<open>
  The dump fails when the process cannot be started or exits non-zero; the exception it
  then raises, and what the raw file holds at that moment.
\<close>

definition dump_fails :: "env \<Rightarrow> bool" where
  "dump_fails e = (case dump_launch e of Some x \<Rightarrow> True | None \<Rightarrow> dump_returncode e \<noteq> 0)"

definition dump_raises :: "env \<Rightarrow> exn" where
  "dump_raises e = (case dump_launch e of Some x \<Rightarrow> x | None \<Rightarrow> dump_error e)"

definition dump_written :: "env \<Rightarrow> bytes" where
  "dump_written e = (case dump_launch e of Some x \<Rightarrow> [] | None \<Rightarrow> dump_stdout e)"

text \<open>The recorded events that belong to the remote sweep.\<close>

fun remote_sweep_event :: "event \<Rightarrow> bool" where
  "remote_sweep_event (Call Clean_oss_backups) = True"
| "remote_sweep_event (List_objects pre) = True"
| "remote_sweep_event (Delete_object key) = True"
| "remote_sweep_event ev = False"

text \<open>The recorded calls of \<^verbatim>\<open>bucket.delete_object\<close>.\<close>

fun delete_event :: "event \<Rightarrow> bool" where
  "delete_event (Delete_object key) = True"
| "delete_event ev = False"

text \<open>The entries that a store holds under one name.\<close>

definition entries :: "string \<Rightarrow> store \<Rightarrow> store" where
  "entries name st = filter (\<lambda>kv. fst kv = name) st"


section \<open>A concrete installation\<close>

text \<open>
  The database \<open>shop\<close> on 2024-03-10, three days of local retention, a sweep at noon,
  and a local directory that holds two older backups and a file of another kind.  The
  compression of the concrete environment puts a marker in front of its input.
\<close>

definition cfg0 :: config where
  "cfg0 = \<lparr>mysql_database = ''shop'', oss_prefix = ''mysql-backups/'',
            keep_local_days = 3, keep_oss_days = 30\<rparr>"

definition self0 :: manager where
  "self0 = \<lparr>cfg = cfg0, today = ''20240310''\<rparr>"

definition env0 :: env where
  "env0 = \<lparr>mkdir_fails = False, bucket_init = None,
            now_init = Datetime (Date 2024 3 10) 7200000000,
            dump_launch = None, dump_returncode = 0, dump_stderr_utf8 = True,
            dump_stdout = ''CREATE TABLE t;'',
            gzip = (\<lambda>b. ''GZ:'' @ b), gzip_fault = None,
            unlink_fails = (\<lambda>_. False), put_result = None,
            list_fault = None, delete_fails = (\<lambda>_. False),
            now = Datetime (Date 2024 3 10) 43200000000\<rparr>"

definition env_dump_fails :: env where
  "env_dump_fails = env0\<lparr>dump_returncode := 2\<rparr>"

definition env_gzip_fails :: env where
  "env_gzip_fails = env0\<lparr>gzip_fault := Some ''GZ:CRE''\<rparr>"

definition env_unlink_refused :: env where
  "env_unlink_refused = env0\<lparr>unlink_fails := (\<lambda>_. True)\<rparr>"

definition env_upload_fails :: env where
  "env_upload_fails = env0\<lparr>put_result := Some OssError\<rparr>"

definition env_april :: env where
  "env_april = env0\<lparr>now := Datetime (Date 2024 4 10) 43200000000\<rparr>"

definition s0 :: state where
  "s0 = \<lparr>local_dir = [(''shop_20240306.sql.gz'', ''a''), (''shop_20240307.sql.gz'', ''b''),
                       (''notes.txt'', ''n'')],
          oss = [], trace = []\<rparr>"


text \<open>
  The same installation with one day and with no day of local retention, and a sweep
  that runs five seconds after the following midnight.
\<close>

definition self_keep1 :: manager where
  "self_keep1 = \<lparr>cfg = cfg0\<lparr>keep_local_days := 1\<rparr>, today = ''20240310''\<rparr>"

definition self_keep0 :: manager where
  "self_keep0 = \<lparr>cfg = cfg0\<lparr>keep_local_days := 0\<rparr>, today = ''20240310''\<rparr>"

definition env_next_day :: env where
  "env_next_day = env0\<lparr>now_init := Datetime (Date 2024 3 10) 86340000000,
                          now := Datetime (Date 2024 3 11) 5000000\<rparr>"

text \<open>A second run on the same day, whose dump has grown.\<close>

definition env_second :: env where
  "env_second = env0\<lparr>dump_stdout := ''CREATE TABLE t; INSERT;''\<rparr>"

text \<open>
  A process environment with every required variable set and the optional ones left to
  their defaults (so that \<open>cfg0\<close> is the \<^verbatim>\<open>CONFIG\<close> loaded from it).
\<close>

definition getenv0 :: "string \<Rightarrow> string option" where
  "getenv0 = map_of
     [(''MYSQL_USER'', ''backup''), (''MYSQL_PASSWORD'', ''secret''),
      (''MYSQL_DATABASE'', ''shop''),
      (''OSS_ACCESS_KEY_ID'', ''LTAI5tExampleKeyId''),
      (''OSS_ACCESS_KEY_SECRET'', ''ExampleKeySecret''),
      (''OSS_ENDPOINT'', ''https://oss-cn-hangzhou.aliyuncs.com''),
      (''OSS_BUCKET'', ''shop-backups'')]"

text \<open>
  The April installation with a bucket that refuses every deletion, and with a bucket
  whose listing fails before it yields a key.
\<close>

definition env_april_refusing :: env where
  "env_april_refusing = env_april\<lparr>delete_fails := (\<lambda>_. True)\<rparr>"

definition env_april_no_listing :: env where
  "env_april_no_listing = env_april\<lparr>list_fault := Some 0\<rparr>"

text \<open>Two clock readings of one day: midnight exactly, and a microsecond later.\<close>

definition env_midnight :: env where
  "env_midnight = env0\<lparr>now := Datetime (Date 2024 4 5) 0\<rparr>"

definition env_past_midnight :: env where
  "env_past_midnight = env0\<lparr>now := Datetime (Date 2024 4 5) 1\<rparr>"

text \<open>
  A bucket for the remote sweep: a name without a date, an old backup, a recent one, and
  an old backup outside the prefix.
\<close>

definition s_remote :: state where
  "s_remote = \<lparr>local_dir = [],
      oss = [(''mysql-backups/notes.sql.gz'', ''x''),
             (''mysql-backups/shop_20240306.sql.gz'', ''a''),
             (''mysql-backups/shop_20240401.sql.gz'', ''b''),
             (''other/shop_20240306.sql.gz'', ''c'')],
      trace = []\<rparr>"

text \<open>
  A local directory in which a name without a date is listed before an old backup; the
  bucket holds the same two names under the prefix.
\<close>

definition s_bad :: state where
  "s_bad = \<lparr>local_dir = [(''notes.sql.gz'', ''n''), (''shop_20240101.sql.gz'', ''old'')],
      oss = [(''mysql-backups/notes.sql.gz'', ''n''),
             (''mysql-backups/shop_20240101.sql.gz'', ''old'')],
      trace = []\<rparr>"

section \<open>File names and the backup step\<close>

lemma last_part_append:
  assumes "sep \<notin> set w"
  shows "last_part sep (u @ sep # w) = w"
proof -
  have "takeWhile (\<lambda>c. c \<noteq> sep) (rev w) = rev w"
    by (rule takeWhile_eq_all_conv [THEN iffD2]) (use assms in auto)
  then have "rev (takeWhile (\<lambda>c. c \<noteq> sep) (rev w)) = w"
    by (simp only: rev_rev_ident)
  then show ?thesis
    by (simp add: last_part_def takeWhile_tail)
qed

lemma path_suffix_sql: "x \<noteq> [] \<Longrightarrow> path_suffix (x @ ''.sql'') = ''.sql''"
proof -
  assume x: "x \<noteq> []"
  have "last_part CHR ''.'' (x @ CHR ''.'' # ''sql'') = ''sql''"
    by (rule last_part_append) simp
  then show ?thesis using x by (simp add: path_suffix_def)
qed

text \<open>\<^verbatim>\<open>with_suffix\<close> replaces the final \<^verbatim>\<open>.sql\<close> of the raw dump's name.\<close>

lemma gz_file_eq:
  "gz_file self = mysql_database (cfg self) @ ''_'' @ today self @ ''.sql.gz''"
proof -
  have "path_suffix ((mysql_database (cfg self) @ ''_'' @ today self) @ ''.sql'') = ''.sql''"
    by (rule path_suffix_sql) simp
  then show ?thesis by (simp add: gz_file_def dump_file_def with_suffix_def)
qed

lemma dump_neq_gz: "dump_file self \<noteq> gz_file self"
  by (simp add: gz_file_eq dump_file_def)

lemmas step_defs = write_file_def unlink_def backup_failed_def emit_def log_def
  exists_file_def Let_def

text \<open>The three ways through \<^verbatim>\<open>run_mysqldump\<close>, each with its final state.\<close>

lemma dump_fails_iff: "\<not> dump_fails e \<longleftrightarrow> dump_launch e = None \<and> dump_returncode e = 0"
  by (simp add: dump_fails_def split: option.splits)

lemma run_mysqldump_dump_fails:
  assumes "dump_fails e"
  shows "run_mysqldump self e s =
    (if unlink_fails e (dump_file self)
     then (Inl OSError,
           s\<lparr>local_dir := AList.update (dump_file self) (dump_written e) (local_dir s),
             trace := trace s @ [Call Run_mysqldump, Open_wb (dump_file self), Subprocess_run,
                Logger ERROR (Backup_failed (dump_raises e)), Unlink (dump_file self)]\<rparr>)
     else (Inl (dump_raises e),
           s\<lparr>local_dir := AList.delete (dump_file self) (local_dir s),
             trace := trace s @ [Call Run_mysqldump, Open_wb (dump_file self), Subprocess_run,
                Logger ERROR (Backup_failed (dump_raises e)), Unlink (dump_file self)]\<rparr>))"
proof (cases "dump_launch e")
  case (Some x)
  then show ?thesis
    by (simp add: run_mysqldump_def step_defs update_conv' delete_update_same
        dump_raises_def dump_written_def)
next
  case None
  with assms have "dump_returncode e \<noteq> 0" by (simp add: dump_fails_def)
  with None show ?thesis
    by (simp add: run_mysqldump_def step_defs update_conv' delete_update_same
        dump_raises_def dump_written_def)
qed

lemma run_mysqldump_gzip_fails:
  assumes "\<not> dump_fails e" "gzip_fault e = Some part"
  shows "run_mysqldump self e s =
    (if unlink_fails e (dump_file self)
     then (Inl OSError,
           s\<lparr>local_dir := AList.update (gz_file self) part
                  (AList.update (dump_file self) (dump_stdout e) (local_dir s)),
             trace := trace s @ [Call Run_mysqldump, Open_wb (dump_file self), Subprocess_run,
                Open_wb (gz_file self),
                Logger ERROR (Backup_failed OSError), Unlink (dump_file self)]\<rparr>)
     else (Inl OSError,
           s\<lparr>local_dir := AList.delete (dump_file self)
                  (AList.update (gz_file self) part (local_dir s)),
             trace := trace s @ [Call Run_mysqldump, Open_wb (dump_file self), Subprocess_run,
                Open_wb (gz_file self),
                Logger ERROR (Backup_failed OSError), Unlink (dump_file self)]\<rparr>))"
  using assms [unfolded dump_fails_iff] dump_neq_gz [of self]
  by (simp add: run_mysqldump_def step_defs update_conv' delete_update_same delete_update)

lemma run_mysqldump_ok:
  assumes "\<not> dump_fails e" "gzip_fault e = None"
  shows "run_mysqldump self e s =
    (if unlink_fails e (dump_file self)
     then (Inl OSError,
           s\<lparr>local_dir := AList.update (gz_file self) (gzip e (dump_stdout e))
                  (AList.update (dump_file self) (dump_stdout e) (local_dir s)),
             trace := trace s @ [Call Run_mysqldump, Open_wb (dump_file self), Subprocess_run,
                Open_wb (gz_file self), Gzip_done (gz_file self), Unlink (dump_file self),
                Logger ERROR (Backup_failed OSError), Unlink (dump_file self)]\<rparr>)
     else (Inr (gz_file self),
           s\<lparr>local_dir := AList.delete (dump_file self)
                  (AList.update (gz_file self) (gzip e (dump_stdout e)) (local_dir s)),
             trace := trace s @ [Call Run_mysqldump, Open_wb (dump_file self), Subprocess_run,
                Open_wb (gz_file self), Gzip_done (gz_file self), Unlink (dump_file self),
                Logger INFO (Local_backup_ok (gz_file self))]\<rparr>))"
  using assms [unfolded dump_fails_iff] dump_neq_gz [of self]
  by (simp add: run_mysqldump_def step_defs update_conv' delete_update_same delete_update)

text \<open>A compressed file is the result only when nothing on the way failed.\<close>

lemma run_mysqldump_Inr:
  assumes "run_mysqldump self e s = (Inr p, s')"
  shows "\<not> dump_fails e \<and> gzip_fault e = None \<and> \<not> unlink_fails e (dump_file self)"
proof -
  have a: "\<not> dump_fails e"
  proof
    assume "dump_fails e"
    from run_mysqldump_dump_fails [OF this, of self s] assms show False
      by (simp split: if_splits)
  qed
  have b: "gzip_fault e = None"
  proof (cases "gzip_fault e")
    case (Some part)
    from run_mysqldump_gzip_fails [OF a Some, of self s] assms show ?thesis
      by (simp split: if_splits)
  qed simp
  have c: "\<not> unlink_fails e (dump_file self)"
  proof
    assume "unlink_fails e (dump_file self)"
    with run_mysqldump_ok [OF a b, of self s] assms show False
      by simp
  qed
  show ?thesis using a b c by simp
qed

lemmas concrete_defs = cfg0_def self0_def env0_def s0_def dump_file_def gz_file_eq
  env_dump_fails_def env_gzip_fails_def env_upload_fails_def env_april_def s_remote_def


section \<open>Failure of the dump\<close>

text \<open>
  Claim C4.  If the dump process exits non-zero, the run reports failure (\<open>execute\<close>
  gives \<open>False\<close>), no compressed file is created (what the directory holds under the
  name of today's compressed file is what it held before, and that file is never
  opened), no upload is attempted (the bucket is untouched and the recorded calls end
  with the error handler: no \<open>Put_object\<close>), and the raw dump file is unlinked by the
  handler: it is gone afterwards unless the operating system refuses the unlink.  The
  exception that the handler logs is the \<^verbatim>\<open>RuntimeError\<close> of line 89, or the error of
  decoding the error stream for its message.
\<close>

theorem dump_failure_aborts_run:
  assumes "dump_returncode e \<noteq> 0"
  shows "fst (execute self e s) = False
    \<and> oss (snd (execute self e s)) = oss s
    \<and> map_of (local_dir (snd (execute self e s))) (gz_file self)
        = map_of (local_dir s) (gz_file self)
    \<and> trace (snd (execute self e s))
        = trace s @ [Call Run_mysqldump, Open_wb (dump_file self), Subprocess_run,
            Logger ERROR (Backup_failed (dump_raises e)), Unlink (dump_file self),
            Logger CRITICAL
              (Flow_aborted (if unlink_fails e (dump_file self) then OSError else dump_raises e))]
    \<and> (dump_launch e = None \<longrightarrow> dump_raises e = dump_error e)
    \<and> (\<not> unlink_fails e (dump_file self)
          \<longrightarrow> \<not> exists_file (dump_file self) (snd (execute self e s)))"
proof -
  from assms have f: "dump_fails e" by (simp add: dump_fails_def split: option.splits)
  show ?thesis
    using dump_neq_gz [of self]
    by (simp add: execute_def run_mysqldump_dump_fails [OF f] log_def exists_file_def
        update_conv' delete_conv' dump_raises_def)
qed

theorem dump_failure_aborts_run_witness:
  "dump_returncode env_dump_fails \<noteq> 0
   \<and> dump_launch env_dump_fails = None
   \<and> dump_raises env_dump_fails = RuntimeError
   \<and> \<not> unlink_fails env_dump_fails (dump_file self0)
   \<and> fst (execute self0 env_dump_fails s0) = False
   \<and> oss (snd (execute self0 env_dump_fails s0)) = []
   \<and> map_of (local_dir (snd (execute self0 env_dump_fails s0)))
        ''shop_20240310.sql.gz'' = None
   \<and> \<not> exists_file ''shop_20240310.sql'' (snd (execute self0 env_dump_fails s0))"
proof -
  have h: "dump_returncode env_dump_fails \<noteq> 0"
    by (simp add: env0_def env_dump_fails_def)
  show ?thesis
    using dump_failure_aborts_run [OF h, of self0 s0]
    by (simp add: concrete_defs dump_raises_def dump_error_def)
qed

section \<open>The upload step and the result of the backup step\<close>

lemma upload_to_oss_fails:
  assumes "map_of (local_dir s) p = Some data" "put_result e = Some x"
  shows "upload_to_oss self e p s =
    (Some x, s\<lparr>trace := trace s @ [Call Upload_to_oss, Put_object (oss_prefix (cfg self) @ p)]
                 @ (if x = OssError then [Logger ERROR (Oss_upload_failed x)] else [])\<rparr>)"
  using assms by (simp add: upload_to_oss_def emit_def log_def)

lemma upload_to_oss_ok:
  assumes "map_of (local_dir s) p = Some data" "put_result e = None"
  shows "upload_to_oss self e p s =
    (None, s\<lparr>oss := AList.update (oss_prefix (cfg self) @ p) data (oss s),
              trace := trace s @ [Call Upload_to_oss, Put_object (oss_prefix (cfg self) @ p),
                Logger INFO (Oss_upload_ok (oss_prefix (cfg self) @ p))]\<rparr>)"
  using assms by (simp add: upload_to_oss_def emit_def log_def Let_def)

lemma run_mysqldump_Inr_state:
  assumes "run_mysqldump self e s = (Inr p, s')"
  shows "p = gz_file self"
    and "s' = s\<lparr>local_dir := AList.delete (dump_file self)
                  (AList.update (gz_file self) (gzip e (dump_stdout e)) (local_dir s)),
             trace := trace s @ [Call Run_mysqldump, Open_wb (dump_file self), Subprocess_run,
                Open_wb (gz_file self), Gzip_done (gz_file self), Unlink (dump_file self),
                Logger INFO (Local_backup_ok (gz_file self))]\<rparr>"
proof -
  from run_mysqldump_Inr [OF assms]
  have h: "\<not> dump_fails e" "gzip_fault e = None" "\<not> unlink_fails e (dump_file self)"
    by simp_all
  from run_mysqldump_ok [OF h(1) h(2), of self s] h(3) assms
  show "p = gz_file self"
    and "s' = s\<lparr>local_dir := AList.delete (dump_file self)
                  (AList.update (gz_file self) (gzip e (dump_stdout e)) (local_dir s)),
             trace := trace s @ [Call Run_mysqldump, Open_wb (dump_file self), Subprocess_run,
                Open_wb (gz_file self), Gzip_done (gz_file self), Unlink (dump_file self),
                Logger INFO (Local_backup_ok (gz_file self))]\<rparr>"
    by simp_all
qed

lemma run_mysqldump_Inr_gz:
  assumes "run_mysqldump self e s = (Inr p, s')"
  shows "map_of (local_dir s') (gz_file self) = Some (gzip e (dump_stdout e))"
    and "\<not> exists_file (dump_file self) s'"
    and "oss s' = oss s"
  using run_mysqldump_Inr_state(2) [OF assms] dump_neq_gz [of self]
  by (simp_all add: delete_conv' update_conv' exists_file_def)


section \<open>The retention sweeps\<close>

text \<open>
  A local sweep that reaches its end has removed exactly the entries whose name is
  expired and whose unlink the system did not refuse.
\<close>

lemma unlink_cases:
  "unlink e f s =
     (if \<not> exists_file f s \<or> unlink_fails e f then (Some OSError, emit (Unlink f) s)
      else (None, (emit (Unlink f) s)\<lparr>local_dir := AList.delete f (local_dir s)\<rparr>))"
  by (simp add: unlink_def emit_def exists_file_def Let_def)

lemma local_loop_None:
  "local_loop e c fs s = (None, s') \<Longrightarrow>
     local_dir s' = filter (\<lambda>kv. \<not> (fst kv \<in> set fs \<and> expired c (fst kv)
                                      \<and> \<not> unlink_fails e (fst kv))) (local_dir s)
     \<and> oss s' = oss s"
proof (induction fs arbitrary: s)
  case Nil
  then show ?case by simp
next
  case (Cons f fs)
  from Cons.prems obtain d where d: "strptime_Ymd (file_date_str f) = Inr d"
    by (cases "strptime_Ymd (file_date_str f)") auto
  show ?case
  proof (cases "before_cutoff d c")
    case False
    then have nf: "\<not> expired c f" by (simp add: expired_def d)
    from Cons.prems d False have "local_loop e c fs s = (None, s')" by simp
    from Cons.IH [OF this] nf show ?thesis
      by (auto intro!: filter_cong)
  next
    case True
    then have ex: "expired c f" by (simp add: expired_def d)
    show ?thesis
    proof (cases "\<not> exists_file f s \<or> unlink_fails e f")
      case True
      with Cons.prems d \<open>before_cutoff d c\<close>
      have "local_loop e c fs (log ERROR (Local_delete_failed OSError) (emit (Unlink f) s)) = (None, s')"
        by (simp add: unlink_cases)
      from Cons.IH [OF this]
      have ih: "local_dir s' = filter (\<lambda>kv. \<not> (fst kv \<in> set fs \<and> expired c (fst kv)
                                      \<and> \<not> unlink_fails e (fst kv))) (local_dir s)"
        and o: "oss s' = oss s"
        by (simp_all add: log_def emit_def)
      have "filter (\<lambda>kv. \<not> (fst kv \<in> set fs \<and> expired c (fst kv)
                                      \<and> \<not> unlink_fails e (fst kv))) (local_dir s)
          = filter (\<lambda>kv. \<not> (fst kv \<in> set (f # fs) \<and> expired c (fst kv)
                                      \<and> \<not> unlink_fails e (fst kv))) (local_dir s)"
        using True
        by (intro filter_cong refl) (auto simp: exists_file_def map_of_eq_None_iff)
      with ih o show ?thesis by simp
    next
      case False
      with Cons.prems d \<open>before_cutoff d c\<close>
      have "local_loop e c fs (log INFO (Local_deleted f)
              ((emit (Unlink f) s)\<lparr>local_dir := AList.delete f (local_dir s)\<rparr>)) = (None, s')"
        by (simp add: unlink_cases)
      from Cons.IH [OF this]
      have ih: "local_dir s' = filter (\<lambda>kv. \<not> (fst kv \<in> set fs \<and> expired c (fst kv)
                                      \<and> \<not> unlink_fails e (fst kv))) (AList.delete f (local_dir s))"
        and o: "oss s' = oss s"
        by (simp_all add: log_def emit_def)
      have "filter (\<lambda>kv. \<not> (fst kv \<in> set fs \<and> expired c (fst kv)
                                      \<and> \<not> unlink_fails e (fst kv))) (AList.delete f (local_dir s))
          = filter (\<lambda>kv. \<not> (fst kv \<in> set (f # fs) \<and> expired c (fst kv)
                                      \<and> \<not> unlink_fails e (fst kv))) (local_dir s)"
        using False ex
        by (auto simp: AList.delete_eq intro!: filter_cong)
      with ih o show ?thesis by simp
    qed
  qed
qed

lemma clean_local_backups_None:
  assumes "clean_local_backups self e s = (None, s')"
  shows "\<exists>c. cutoff_date (now e) (keep_local_days (cfg self)) = Inr c
      \<and> local_dir s' = filter (\<lambda>kv. \<not> (endswith ''.sql.gz'' (fst kv) \<and> expired c (fst kv)
                                      \<and> \<not> unlink_fails e (fst kv))) (local_dir s)
      \<and> oss s' = oss s"
proof -
  from assms obtain c where c: "cutoff_date (now e) (keep_local_days (cfg self)) = Inr c"
    by (cases "cutoff_date (now e) (keep_local_days (cfg self))")
       (auto simp: clean_local_backups_def Let_def)
  let ?s0 = "emit (Call Clean_local_backups) s"
  from assms c have "local_loop e c (glob_sql_gz ?s0) (emit Glob ?s0) = (None, s')"
    by (simp add: clean_local_backups_def Let_def)
  from local_loop_None [OF this]
  have l: "local_dir s' = filter (\<lambda>kv. \<not> (fst kv \<in> set (glob_sql_gz ?s0) \<and> expired c (fst kv)
                                      \<and> \<not> unlink_fails e (fst kv))) (local_dir s)"
    and o: "oss s' = oss s"
    by (simp_all add: emit_def)
  have "filter (\<lambda>kv. \<not> (fst kv \<in> set (glob_sql_gz ?s0) \<and> expired c (fst kv)
                                      \<and> \<not> unlink_fails e (fst kv))) (local_dir s)
      = filter (\<lambda>kv. \<not> (endswith ''.sql.gz'' (fst kv) \<and> expired c (fst kv)
                                      \<and> \<not> unlink_fails e (fst kv))) (local_dir s)"
    by (intro filter_cong refl) (auto simp: glob_sql_gz_def emit_def)
  with l o c show ?thesis by simp
qed

lemma local_loop_frame:
  "filter remote_sweep_event (trace (snd (local_loop e c fs s))) = filter remote_sweep_event (trace s)
   \<and> oss (snd (local_loop e c fs s)) = oss s"
proof (induction fs arbitrary: s)
  case Nil
  then show ?case by simp
next
  case (Cons f fs)
  show ?case
    by (cases "strptime_Ymd (file_date_str f)")
       (simp_all add: Cons.IH unlink_cases log_def emit_def)
qed

lemma clean_local_backups_frame:
  "filter remote_sweep_event (trace (snd (clean_local_backups self e s)))
     = filter remote_sweep_event (trace s)
   \<and> oss (snd (clean_local_backups self e s)) = oss s"
  by (cases "cutoff_date (now e) (keep_local_days (cfg self))")
     (simp_all add: clean_local_backups_def Let_def local_loop_frame emit_def)

text \<open>
  The remote sweep never raises inside its loop; it removes exactly the listed keys that
  end in \<^verbatim>\<open>.sql.gz\<close>, are expired, and whose deletion the bucket did not refuse.
\<close>

lemma delete_object_cases:
  "delete_object e k s =
     (if delete_fails e k then (Some OssError, emit (Delete_object k) s)
      else (None, (emit (Delete_object k) s)\<lparr>oss := AList.delete k (oss s)\<rparr>))"
  by (simp add: delete_object_def emit_def Let_def)

lemma oss_loop_result:
  "oss (oss_loop e c ks s)
     = filter (\<lambda>kv. \<not> (fst kv \<in> set ks \<and> endswith ''.sql.gz'' (fst kv)
                        \<and> expired c (path_name (fst kv)) \<and> \<not> delete_fails e (fst kv))) (oss s)
   \<and> local_dir (oss_loop e c ks s) = local_dir s"
proof (induction ks arbitrary: s)
  case Nil
  then show ?case by simp
next
  case (Cons k ks)
  show ?case
  proof (cases "endswith ''.sql.gz'' k")
    case False
    then show ?thesis
      by (auto simp: Cons.IH intro!: filter_cong)
  next
    case True
    show ?thesis
    proof (cases "strptime_Ymd (file_date_str (path_name k))")
      case (Inl x)
      then have "\<not> expired c (path_name k)" by (simp add: expired_def)
      with True Inl show ?thesis
        by (auto simp: Cons.IH log_def intro!: filter_cong)
    next
      case (Inr d)
      then have ex: "expired c (path_name k) = before_cutoff d c" by (simp add: expired_def)
      show ?thesis
      proof (cases "before_cutoff d c \<and> \<not> delete_fails e k")
        case True
        with \<open>endswith ''.sql.gz'' k\<close> Inr ex show ?thesis
          by (auto simp: Cons.IH log_def emit_def delete_object_cases AList.delete_eq
                   intro!: filter_cong)
      next
        case False
        with \<open>endswith ''.sql.gz'' k\<close> Inr ex show ?thesis
          by (auto simp: Cons.IH log_def emit_def delete_object_cases intro!: filter_cong)
      qed
    qed
  qed
qed

lemma oss_loop_no_delete:
  assumes "\<forall>k\<in>set ks. \<not> (endswith ''.sql.gz'' k \<and> expired c (path_name k))"
  shows "filter delete_event (trace (oss_loop e c ks s)) = filter delete_event (trace s)"
  using assms
proof (induction ks arbitrary: s)
  case Nil
  then show ?case by simp
next
  case (Cons k ks)
  then show ?case
    by (cases "strptime_Ymd (file_date_str (path_name k))")
       (auto simp: expired_def log_def)
qed

section \<open>Runs of the concrete installation\<close>

text \<open>
  The names of the concrete installation parsed, the ordinals of its dates, and from
  these the complete result of a sweep, of a successful run and of a run whose upload
  fails.
\<close>

lemmas parse_defs = file_date_str_def last_part_def startswith_def strptime_Ymd_def match_Ymd_def
      match_m_def match_d_def is_digit_def digit_val_def valid_date_def days_in_month_def
      is_leap_def path_name_def

lemma parse_names:
  "strptime_Ymd (file_date_str ''shop_20240306.sql.gz'') = Inr (Date 2024 3 6)"
  "strptime_Ymd (file_date_str ''shop_20240307.sql.gz'') = Inr (Date 2024 3 7)"
  "strptime_Ymd (file_date_str ''shop_20240310.sql.gz'') = Inr (Date 2024 3 10)"
  "strptime_Ymd (file_date_str ''shop_20240101.sql.gz'') = Inr (Date 2024 1 1)"
  "strptime_Ymd (file_date_str ''notes.sql.gz'') = Inl ValueError"
  by (simp_all add: parse_defs)

lemma parse_keys:
  "strptime_Ymd (file_date_str (path_name ''mysql-backups/shop_20240306.sql.gz'')) = Inr (Date 2024 3 6)"
  "strptime_Ymd (file_date_str (path_name ''mysql-backups/shop_20240401.sql.gz'')) = Inr (Date 2024 4 1)"
  "strptime_Ymd (file_date_str (path_name ''mysql-backups/notes.sql.gz'')) = Inl ValueError"
  by (simp_all add: parse_defs)

lemmas ord_defs = ymd2ord_def days_before_year_def days_before_month_def is_leap_def

lemma ord_examples:
  "ymd2ord (Date 2024 3 10) = 738955"
  "ymd2ord (Date 2024 3 7) = 738952"
  "ymd2ord (Date 2024 3 6) = 738951"
  "ymd2ord (Date 2024 1 1) = 738886"
  "ymd2ord (Date 2024 4 10) = 738986"
  "ymd2ord (Date 2024 4 1) = 738977"
  "ymd2ord (Date 2024 3 11) = 738956"
  "ymd2ord (Date 2024 4 5) = 738981"
  by (simp_all add: ord_defs)

lemmas sweep_defs = clean_local_backups_def cutoff_date_def glob_sql_gz_def endswith_def
  unlink_cases exists_file_def emit_def log_def before_cutoff_def Let_def

lemma sweep_s0:
  "clean_local_backups self0 env0
     \<lparr>local_dir = [(''shop_20240306.sql.gz'', ''a''), (''shop_20240307.sql.gz'', ''b''),
          (''notes.txt'', ''n''), (''shop_20240310.sql.gz'', ''GZ:CREATE TABLE t;'')],
      oss = bk, trace = tr\<rparr>
   = (None, \<lparr>local_dir = [(''notes.txt'', ''n''), (''shop_20240310.sql.gz'', ''GZ:CREATE TABLE t;'')],
      oss = bk, trace = tr @ [Call Clean_local_backups, Glob, Unlink ''shop_20240306.sql.gz'',
         Logger INFO (Local_deleted ''shop_20240306.sql.gz''), Unlink ''shop_20240307.sql.gz'',
         Logger INFO (Local_deleted ''shop_20240307.sql.gz'')]\<rparr>)"
  by (simp add: sweep_defs parse_names ord_examples self0_def cfg0_def env0_def)

lemma backup_s0:
  assumes "\<not> dump_fails e" "gzip_fault e = None" "\<not> unlink_fails e ''shop_20240310.sql''"
    and "gzip e (dump_stdout e) = ''GZ:CREATE TABLE t;''"
  shows "run_mysqldump self0 e s0 =
    (Inr ''shop_20240310.sql.gz'',
     \<lparr>local_dir = [(''shop_20240306.sql.gz'', ''a''), (''shop_20240307.sql.gz'', ''b''),
          (''notes.txt'', ''n''), (''shop_20240310.sql.gz'', ''GZ:CREATE TABLE t;'')],
      oss = [],
      trace = [Call Run_mysqldump, Open_wb ''shop_20240310.sql'', Subprocess_run,
         Open_wb ''shop_20240310.sql.gz'', Gzip_done ''shop_20240310.sql.gz'',
         Unlink ''shop_20240310.sql'', Logger INFO (Local_backup_ok ''shop_20240310.sql.gz'')]\<rparr>)"
  using assms
  by (simp add: run_mysqldump_ok dump_fails_def cfg0_def self0_def s0_def dump_file_def gz_file_eq)

lemma execute_upload_fails:
  "execute self0 env_upload_fails s0 =
    (False,
     \<lparr>local_dir = [(''shop_20240306.sql.gz'', ''a''), (''shop_20240307.sql.gz'', ''b''),
          (''notes.txt'', ''n''), (''shop_20240310.sql.gz'', ''GZ:CREATE TABLE t;'')],
      oss = [],
      trace = [Call Run_mysqldump, Open_wb ''shop_20240310.sql'', Subprocess_run,
         Open_wb ''shop_20240310.sql.gz'', Gzip_done ''shop_20240310.sql.gz'',
         Unlink ''shop_20240310.sql'', Logger INFO (Local_backup_ok ''shop_20240310.sql.gz''),
         Call Upload_to_oss, Put_object ''mysql-backups/shop_20240310.sql.gz'',
         Logger ERROR (Oss_upload_failed OssError), Logger CRITICAL (Flow_aborted OssError)]\<rparr>)"
proof -
  have b: "run_mysqldump self0 env_upload_fails s0 =
    (Inr ''shop_20240310.sql.gz'',
     \<lparr>local_dir = [(''shop_20240306.sql.gz'', ''a''), (''shop_20240307.sql.gz'', ''b''),
          (''notes.txt'', ''n''), (''shop_20240310.sql.gz'', ''GZ:CREATE TABLE t;'')],
      oss = [],
      trace = [Call Run_mysqldump, Open_wb ''shop_20240310.sql'', Subprocess_run,
         Open_wb ''shop_20240310.sql.gz'', Gzip_done ''shop_20240310.sql.gz'',
         Unlink ''shop_20240310.sql'', Logger INFO (Local_backup_ok ''shop_20240310.sql.gz'')]\<rparr>)"
    by (rule backup_s0) (simp_all add: env_upload_fails_def env0_def dump_fails_def)
  have u: "upload_to_oss self0 env_upload_fails ''shop_20240310.sql.gz''
     \<lparr>local_dir = [(''shop_20240306.sql.gz'', ''a''), (''shop_20240307.sql.gz'', ''b''),
          (''notes.txt'', ''n''), (''shop_20240310.sql.gz'', ''GZ:CREATE TABLE t;'')],
      oss = [], trace = tr\<rparr>
    = (Some OssError,
       \<lparr>local_dir = [(''shop_20240306.sql.gz'', ''a''), (''shop_20240307.sql.gz'', ''b''),
          (''notes.txt'', ''n''), (''shop_20240310.sql.gz'', ''GZ:CREATE TABLE t;'')],
      oss = [],
      trace = tr @ [Call Upload_to_oss, Put_object ''mysql-backups/shop_20240310.sql.gz'',
         Logger ERROR (Oss_upload_failed OssError)]\<rparr>)" for tr
    by (simp add: upload_to_oss_def emit_def log_def Let_def env_upload_fails_def env0_def
        self0_def cfg0_def)
  show ?thesis
    by (simp add: execute_def b u log_def)
qed

lemma execute_env0:
  "execute self0 env0 s0 =
    (True,
     \<lparr>local_dir = [(''notes.txt'', ''n''), (''shop_20240310.sql.gz'', ''GZ:CREATE TABLE t;'')],
      oss = [(''mysql-backups/shop_20240310.sql.gz'', ''GZ:CREATE TABLE t;'')],
      trace = [Call Run_mysqldump, Open_wb ''shop_20240310.sql'', Subprocess_run,
         Open_wb ''shop_20240310.sql.gz'', Gzip_done ''shop_20240310.sql.gz'',
         Unlink ''shop_20240310.sql'', Logger INFO (Local_backup_ok ''shop_20240310.sql.gz''),
         Call Upload_to_oss, Put_object ''mysql-backups/shop_20240310.sql.gz'',
         Logger INFO (Oss_upload_ok ''mysql-backups/shop_20240310.sql.gz''),
         Call Clean_local_backups, Glob, Unlink ''shop_20240306.sql.gz'',
         Logger INFO (Local_deleted ''shop_20240306.sql.gz''), Unlink ''shop_20240307.sql.gz'',
         Logger INFO (Local_deleted ''shop_20240307.sql.gz''), Logger INFO Flow_done]\<rparr>)"
proof -
  have b: "run_mysqldump self0 env0 s0 =
    (Inr ''shop_20240310.sql.gz'',
     \<lparr>local_dir = [(''shop_20240306.sql.gz'', ''a''), (''shop_20240307.sql.gz'', ''b''),
          (''notes.txt'', ''n''), (''shop_20240310.sql.gz'', ''GZ:CREATE TABLE t;'')],
      oss = [],
      trace = [Call Run_mysqldump, Open_wb ''shop_20240310.sql'', Subprocess_run,
         Open_wb ''shop_20240310.sql.gz'', Gzip_done ''shop_20240310.sql.gz'',
         Unlink ''shop_20240310.sql'', Logger INFO (Local_backup_ok ''shop_20240310.sql.gz'')]\<rparr>)"
    by (rule backup_s0) (simp_all add: env0_def dump_fails_def)
  have u: "upload_to_oss self0 env0 ''shop_20240310.sql.gz''
     \<lparr>local_dir = [(''shop_20240306.sql.gz'', ''a''), (''shop_20240307.sql.gz'', ''b''),
          (''notes.txt'', ''n''), (''shop_20240310.sql.gz'', ''GZ:CREATE TABLE t;'')],
      oss = [], trace = tr\<rparr>
    = (None, \<lparr>local_dir = [(''shop_20240306.sql.gz'', ''a''), (''shop_20240307.sql.gz'', ''b''),
          (''notes.txt'', ''n''), (''shop_20240310.sql.gz'', ''GZ:CREATE TABLE t;'')],
      oss = [(''mysql-backups/shop_20240310.sql.gz'', ''GZ:CREATE TABLE t;'')],
      trace = tr @ [Call Upload_to_oss, Put_object ''mysql-backups/shop_20240310.sql.gz'',
         Logger INFO (Oss_upload_ok ''mysql-backups/shop_20240310.sql.gz'')]\<rparr>)" for tr
    by (simp add: upload_to_oss_def emit_def log_def Let_def env0_def self0_def cfg0_def)
  show ?thesis
    by (simp add: execute_def b u sweep_s0 log_def)
qed


section \<open>Failure of the upload\<close>

text \<open>
  Claim C1, as amended.  If the upload fails after the backup step has returned the
  compressed file, the run reports failure, today's compressed file still exists with
  the complete compressed dump, and the local retention sweep is not executed: the
  directory is as the backup step left it, and after the failed upload the only further
  event is the critical log record.
\<close>

theorem upload_failure_keeps_file_skips_sweep:
  assumes "run_mysqldump self e s = (Inr p, s1)" and "put_result e = Some x"
  shows "fst (execute self e s) = False
    \<and> local_dir (snd (execute self e s)) = local_dir s1
    \<and> map_of (local_dir (snd (execute self e s))) (gz_file self)
        = Some (gzip e (dump_stdout e))
    \<and> oss (snd (execute self e s)) = oss s
    \<and> trace (snd (execute self e s))
        = trace s1 @ [Call Upload_to_oss, Put_object (oss_prefix (cfg self) @ gz_file self)]
            @ (if x = OssError then [Logger ERROR (Oss_upload_failed x)] else [])
            @ [Logger CRITICAL (Flow_aborted x)]"
proof -
  have p: "p = gz_file self"
    by (rule run_mysqldump_Inr_state(1) [OF assms(1)])
  have gz: "map_of (local_dir s1) (gz_file self) = Some (gzip e (dump_stdout e))"
    by (rule run_mysqldump_Inr_gz(1) [OF assms(1)])
  have o: "oss s1 = oss s"
    by (rule run_mysqldump_Inr_gz(3) [OF assms(1)])
  show ?thesis
    using gz o
    by (simp add: execute_def assms(1) p upload_to_oss_fails [OF gz assms(2)] log_def)
qed

theorem upload_failure_keeps_file_skips_sweep_witness:
  "run_mysqldump self0 env_upload_fails s0
     = (Inr ''shop_20240310.sql.gz'', snd (run_mysqldump self0 env_upload_fails s0))
   \<and> put_result env_upload_fails = Some OssError
   \<and> fst (execute self0 env_upload_fails s0) = False
   \<and> map_of (local_dir (snd (execute self0 env_upload_fails s0))) ''shop_20240310.sql.gz''
       = Some ''GZ:CREATE TABLE t;''"
proof -
  have r: "run_mysqldump self0 env_upload_fails s0
     = (Inr ''shop_20240310.sql.gz'', snd (run_mysqldump self0 env_upload_fails s0))"
    by (simp add: run_mysqldump_ok dump_fails_def concrete_defs)
  have p: "put_result env_upload_fails = Some OssError"
    by (simp add: concrete_defs)
  have g: "gz_file self0 = ''shop_20240310.sql.gz''"
    by (simp add: concrete_defs)
  have z: "gzip env_upload_fails (dump_stdout env_upload_fails) = ''GZ:CREATE TABLE t;''"
    by (simp add: concrete_defs)
  note t = upload_failure_keeps_file_skips_sweep [OF r p, unfolded g z]
  show ?thesis
    using r p t by blast
qed

text \<open>
  Claim C1 as written also asks that the local sweep still runs after a failed upload.
  In the concrete installation with a failing upload the sweep is never entered and the
  two backups that it would remove stay; with a working upload it is entered and
  removes them.
\<close>

theorem upload_failure_sweep_counterexample:
  "fst (run_mysqldump self0 env_upload_fails s0) = Inr ''shop_20240310.sql.gz''
   \<and> put_result env_upload_fails = Some OssError
   \<and> Call Clean_local_backups \<notin> set (trace (snd (execute self0 env_upload_fails s0)))
   \<and> local_dir (snd (execute self0 env_upload_fails s0))
       = [(''shop_20240306.sql.gz'', ''a''), (''shop_20240307.sql.gz'', ''b''),
          (''notes.txt'', ''n''), (''shop_20240310.sql.gz'', ''GZ:CREATE TABLE t;'')]
   \<and> Call Clean_local_backups \<in> set (trace (snd (execute self0 env0 s0)))
   \<and> local_dir (snd (execute self0 env0 s0))
       = [(''notes.txt'', ''n''), (''shop_20240310.sql.gz'', ''GZ:CREATE TABLE t;'')]"
proof -
  have "fst (run_mysqldump self0 env_upload_fails s0) = Inr ''shop_20240310.sql.gz''"
    by (subst backup_s0) (simp_all add: env_upload_fails_def env0_def dump_fails_def)
  moreover have "put_result env_upload_fails = Some OssError"
    by (simp add: env_upload_fails_def)
  ultimately show ?thesis
    by (simp add: execute_upload_fails execute_env0)
qed


section \<open>The remote sweep called twice\<close>

lemmas remote_defs = clean_oss_backups_def cutoff_date_def list_objects_def startswith_def
  endswith_def delete_object_cases emit_def log_def before_cutoff_def Let_def

lemma remote_sweep_s_remote:
  "clean_oss_backups self0 env_april s_remote =
    (None,
     \<lparr>local_dir = [],
      oss = [(''mysql-backups/notes.sql.gz'', ''x''),
             (''mysql-backups/shop_20240401.sql.gz'', ''b''),
             (''other/shop_20240306.sql.gz'', ''c'')],
      trace = [Call Clean_oss_backups, List_objects ''mysql-backups/'',
         Logger ERROR (Oss_file_failed ''mysql-backups/notes.sql.gz'' ValueError),
         Delete_object ''mysql-backups/shop_20240306.sql.gz'',
         Logger INFO (Oss_deleted ''mysql-backups/shop_20240306.sql.gz'')]\<rparr>)"
  by (simp add: remote_defs parse_keys ord_examples self0_def cfg0_def env_april_def env0_def
      s_remote_def)

text \<open>What a call of the remote sweep that returns normally has done, and what any call does.\<close>

lemma clean_oss_backups_None:
  assumes "clean_oss_backups self e s = (None, s1)"
  shows "\<exists>c. cutoff_date (now e) (keep_oss_days (cfg self)) = Inr c
      \<and> list_fault e = None
      \<and> s1 = oss_loop e c (list_objects (oss_prefix (cfg self)) s)
               (emit (List_objects (oss_prefix (cfg self))) (emit (Call Clean_oss_backups) s))"
proof (cases "cutoff_date (now e) (keep_oss_days (cfg self))")
  case (Inl x)
  with assms show ?thesis by (simp add: clean_oss_backups_def Let_def)
next
  case (Inr c)
  with assms show ?thesis
    by (cases "list_fault e")
       (simp_all add: clean_oss_backups_def Let_def list_objects_def emit_def)
qed

lemma clean_oss_backups_result:
  assumes "cutoff_date (now e) (keep_oss_days (cfg self)) = Inr c"
  shows "\<exists>ks. set ks \<subseteq> set (list_objects (oss_prefix (cfg self)) s)
      \<and> snd (clean_oss_backups self e s)
          = oss_loop e c ks
              (emit (List_objects (oss_prefix (cfg self))) (emit (Call Clean_oss_backups) s))
      \<and> (list_fault e = None \<longrightarrow> fst (clean_oss_backups self e s) = None)"
proof (cases "list_fault e")
  case None
  show ?thesis
    by (rule exI [of _ "list_objects (oss_prefix (cfg self)) s"])
       (simp add: assms None clean_oss_backups_def Let_def list_objects_def emit_def)
next
  case (Some n)
  have sub: "set (take n (list_objects (oss_prefix (cfg self)) s))
          \<subseteq> set (list_objects (oss_prefix (cfg self)) s)"
    by (rule set_take_subset)
  have run: "snd (clean_oss_backups self e s)
      = oss_loop e c (take n (list_objects (oss_prefix (cfg self)) s))
          (emit (List_objects (oss_prefix (cfg self))) (emit (Call Clean_oss_backups) s))"
    by (simp add: assms Some clean_oss_backups_def Let_def list_objects_def emit_def)
  show ?thesis
    by (rule exI [of _ "take n (list_objects (oss_prefix (cfg self)) s)"])
       (simp add: sub run Some)
qed

lemma list_objects_filter:
  "oss s1 = filter P (oss s) \<Longrightarrow> set (list_objects pre s1) \<subseteq> set (list_objects pre s)"
  by (auto simp: list_objects_def)

lemma expired_later_same_day:
  assumes "0 < t1 \<or> t2 = 0" and "expired (d, t2) name"
  shows "expired (d, t1) name"
  using assms
  by (cases "strptime_Ymd (file_date_str name)") (auto simp: expired_def before_cutoff_def)

text \<open>
  Claim C9, as amended.  The first call of the remote sweep has returned normally; the
  second call is made on the same calendar day, and not after midnight if the first was
  made at midnight exactly; the bucket refuses again every deletion it refused in the
  first call.  Then the second call leaves the bucket as the first left it (no further
  deletion); it returns normally if its listing of the bucket does not fail; and if the
  first call met no refusal the second does not even call \<^verbatim>\<open>delete_object\<close>.
\<close>

theorem remote_sweep_repeated:
  assumes "clean_oss_backups self e1 s = (None, s1)"
    and "dt_date (now e2) = dt_date (now e1)"
    and "0 < dt_micros (now e1) \<or> dt_micros (now e2) = 0"
    and "\<forall>k. delete_fails e1 k \<longrightarrow> delete_fails e2 k"
  shows "oss (snd (clean_oss_backups self e2 s1)) = oss s1
    \<and> (list_fault e2 = None \<longrightarrow> fst (clean_oss_backups self e2 s1) = None)
    \<and> ((\<forall>k. \<not> delete_fails e1 k)
          \<longrightarrow> filter delete_event (trace (snd (clean_oss_backups self e2 s1)))
              = filter delete_event (trace s1))"
proof -
  let ?pre = "oss_prefix (cfg self)"
  let ?keep = "keep_oss_days (cfg self)"
  from clean_oss_backups_None [OF assms(1)] obtain c1
    where c1: "cutoff_date (now e1) ?keep = Inr c1"
      and s1: "s1 = oss_loop e1 c1 (list_objects ?pre s)
                      (emit (List_objects ?pre) (emit (Call Clean_oss_backups) s))"
    by blast
  let ?d = "ymd2ord (dt_date (now e1)) - ?keep"
  have c1': "c1 = (?d, dt_micros (now e1))"
    using c1 by (auto simp: cutoff_date_def Let_def split: if_splits)
  have c2: "cutoff_date (now e2) ?keep = Inr (?d, dt_micros (now e2))"
    using c1 assms(2) by (auto simp: cutoff_date_def Let_def split: if_splits)
  have later: "expired (?d, dt_micros (now e2)) name \<Longrightarrow> expired c1 name" for name
    unfolding c1' by (rule expired_later_same_day [OF assms(3)])
  let ?P1 = "\<lambda>kv. \<not> (fst kv \<in> set (list_objects ?pre s) \<and> endswith ''.sql.gz'' (fst kv)
                        \<and> expired c1 (path_name (fst kv)) \<and> \<not> delete_fails e1 (fst kv))"
  have o1: "oss s1 = filter ?P1 (oss s)"
    using oss_loop_result [of e1 c1 "list_objects ?pre s"
                "emit (List_objects ?pre) (emit (Call Clean_oss_backups) s)"]
    by (simp add: s1 emit_def)
  let ?t = "emit (List_objects ?pre) (emit (Call Clean_oss_backups) s1)"
  from clean_oss_backups_result [OF c2, of s1] obtain ks
    where ks: "set ks \<subseteq> set (list_objects ?pre s1)
      \<and> snd (clean_oss_backups self e2 s1) = oss_loop e2 (?d, dt_micros (now e2)) ks ?t
      \<and> (list_fault e2 = None \<longrightarrow> fst (clean_oss_backups self e2 s1) = None)" ..
  note sub = ks [THEN conjunct1]
  note second = ks [THEN conjunct2, THEN conjunct1]
  note normal = ks [THEN conjunct2, THEN conjunct2]
  have "set (list_objects ?pre s1) \<subseteq> set (list_objects ?pre s)"
    by (rule list_objects_filter [OF o1])
  with sub have listed: "k \<in> set (list_objects ?pre s)" if "k \<in> set ks" for k
    using that by blast
  have keep: "\<not> (fst kv \<in> set ks \<and> endswith ''.sql.gz'' (fst kv)
            \<and> expired (?d, dt_micros (now e2)) (path_name (fst kv))
            \<and> \<not> delete_fails e2 (fst kv))"
    if "kv \<in> set (oss s1)" for kv
  proof
    assume a: "fst kv \<in> set ks \<and> endswith ''.sql.gz'' (fst kv)
            \<and> expired (?d, dt_micros (now e2)) (path_name (fst kv))
            \<and> \<not> delete_fails e2 (fst kv)"
    then have "fst kv \<in> set (list_objects ?pre s)" and "expired c1 (path_name (fst kv))"
      and "\<not> delete_fails e1 (fst kv)"
      using listed later assms(4) by blast+
    with a have "\<not> ?P1 kv" by simp
    with that show False by (simp add: o1)
  qed
  have "oss (oss_loop e2 (?d, dt_micros (now e2)) ks ?t)
      = filter (\<lambda>kv. \<not> (fst kv \<in> set ks \<and> endswith ''.sql.gz'' (fst kv)
                        \<and> expired (?d, dt_micros (now e2)) (path_name (fst kv))
                        \<and> \<not> delete_fails e2 (fst kv))) (oss s1)"
    using oss_loop_result [of e2 "(?d, dt_micros (now e2))" ks ?t] by (simp add: emit_def)
  also have "\<dots> = oss s1"
    by (rule filter_True) (use keep in blast)
  finally have same: "oss (snd (clean_oss_backups self e2 s1)) = oss s1"
    by (simp add: second)
  have quiet: "filter delete_event (trace (snd (clean_oss_backups self e2 s1)))
                 = filter delete_event (trace s1)"
    if nofail: "\<forall>k. \<not> delete_fails e1 k"
  proof -
    have "\<forall>k\<in>set ks. \<not> (endswith ''.sql.gz'' k
              \<and> expired (?d, dt_micros (now e2)) (path_name k))"
    proof
      fix k assume k: "k \<in> set ks"
      with sub obtain v where kv: "(k, v) \<in> set (oss s1)"
        by (auto simp: list_objects_def)
      then have "?P1 (k, v)" by (simp add: o1)
      with nofail listed [OF k] later [of "path_name k"]
      show "\<not> (endswith ''.sql.gz'' k \<and> expired (?d, dt_micros (now e2)) (path_name k))"
        by auto
    qed
    from oss_loop_no_delete [OF this, of e2 ?t]
    show ?thesis by (simp add: second emit_def)
  qed
  show ?thesis
    using same normal quiet by blast
qed

theorem remote_sweep_repeated_witness:
  "clean_oss_backups self0 env_april s_remote
     = (None, snd (clean_oss_backups self0 env_april s_remote))
   \<and> 0 < dt_micros (now env_april)
   \<and> list_fault env_april = None
   \<and> \<not> delete_fails env_april ''mysql-backups/shop_20240306.sql.gz''
   \<and> oss (snd (clean_oss_backups self0 env_april s_remote))
       = [(''mysql-backups/notes.sql.gz'', ''x''),
          (''mysql-backups/shop_20240401.sql.gz'', ''b''),
          (''other/shop_20240306.sql.gz'', ''c'')]
   \<and> fst (clean_oss_backups self0 env_april (snd (clean_oss_backups self0 env_april s_remote)))
       = None
   \<and> oss (snd (clean_oss_backups self0 env_april
                 (snd (clean_oss_backups self0 env_april s_remote))))
       = [(''mysql-backups/notes.sql.gz'', ''x''),
          (''mysql-backups/shop_20240401.sql.gz'', ''b''),
          (''other/shop_20240306.sql.gz'', ''c'')]
   \<and> filter delete_event
        (trace (snd (clean_oss_backups self0 env_april
                 (snd (clean_oss_backups self0 env_april s_remote)))))
       = [Delete_object ''mysql-backups/shop_20240306.sql.gz'']"
proof -
  have f: "fst (clean_oss_backups self0 env_april s_remote) = None"
    and o: "oss (snd (clean_oss_backups self0 env_april s_remote))
       = [(''mysql-backups/notes.sql.gz'', ''x''),
          (''mysql-backups/shop_20240401.sql.gz'', ''b''),
          (''other/shop_20240306.sql.gz'', ''c'')]"
    and t: "filter delete_event (trace (snd (clean_oss_backups self0 env_april s_remote)))
       = [Delete_object ''mysql-backups/shop_20240306.sql.gz'']"
    by (simp_all add: remote_sweep_s_remote)
  from f have r: "clean_oss_backups self0 env_april s_remote
     = (None, snd (clean_oss_backups self0 env_april s_remote))"
    by (simp add: prod_eq_iff)
  have h2: "dt_date (now env_april) = dt_date (now env_april)" by simp
  have h3: "0 < dt_micros (now env_april) \<or> dt_micros (now env_april) = 0"
    and m: "0 < dt_micros (now env_april)"
    and l: "list_fault env_april = None"
    by (simp_all add: env_april_def env0_def)
  have h4: "\<forall>k. delete_fails env_april k \<longrightarrow> delete_fails env_april k" by simp
  have h5: "\<forall>k. \<not> delete_fails env_april k" by (simp add: env_april_def env0_def)
  note i = remote_sweep_repeated [OF r h2 h3 h4, unfolded o t]
  show ?thesis
    using r m l h5 o i by blast
qed

text \<open>
  Claim C9 as written asks only for the same day and no new artifact.  A first call at
  midnight exactly keeps the backup of the thirtieth day before, since its date is not
  before the cutoff; a second call one microsecond later, on the same bucket and the
  same day, deletes it.  A first call whose deletion the bucket refuses logs the
  refusal and returns; a second call at the same clock reading, which the bucket does
  not refuse, deletes the object.  And a second call whose listing of the bucket fails
  raises that error.
\<close>

theorem remote_sweep_second_call_deletes_counterexample:
  "dt_date (now env_past_midnight) = dt_date (now env_midnight)
   \<and> fst (clean_oss_backups self0 env_midnight s_remote) = None
   \<and> oss (snd (clean_oss_backups self0 env_midnight s_remote)) = oss s_remote
   \<and> map_of (oss s_remote) ''mysql-backups/shop_20240306.sql.gz'' = Some ''a''
   \<and> fst (clean_oss_backups self0 env_past_midnight
             (snd (clean_oss_backups self0 env_midnight s_remote))) = None
   \<and> map_of (oss (snd (clean_oss_backups self0 env_past_midnight
                         (snd (clean_oss_backups self0 env_midnight s_remote)))))
        ''mysql-backups/shop_20240306.sql.gz'' = None
   \<and> now env_april_refusing = now env_april
   \<and> fst (clean_oss_backups self0 env_april_refusing s_remote) = None
   \<and> oss (snd (clean_oss_backups self0 env_april_refusing s_remote)) = oss s_remote
   \<and> fst (clean_oss_backups self0 env_april
             (snd (clean_oss_backups self0 env_april_refusing s_remote))) = None
   \<and> map_of (oss (snd (clean_oss_backups self0 env_april
                         (snd (clean_oss_backups self0 env_april_refusing s_remote)))))
        ''mysql-backups/shop_20240306.sql.gz'' = None
   \<and> now env_april_no_listing = now env_april
   \<and> fst (clean_oss_backups self0 env_april s_remote) = None
   \<and> fst (clean_oss_backups self0 env_april_no_listing
             (snd (clean_oss_backups self0 env_april s_remote))) = Some OssError"
proof -
  have first: "clean_oss_backups self0 env_midnight s_remote
      = (None, s_remote\<lparr>trace := [Call Clean_oss_backups, List_objects ''mysql-backups/'',
           Logger ERROR (Oss_file_failed ''mysql-backups/notes.sql.gz'' ValueError)]\<rparr>)"
    by (simp add: remote_defs parse_keys ord_examples self0_def cfg0_def env_midnight_def
        env0_def s_remote_def)
  have second: "clean_oss_backups self0 env_past_midnight
        (s_remote\<lparr>trace := tr\<rparr>)
      = (None, \<lparr>local_dir = [],
           oss = [(''mysql-backups/notes.sql.gz'', ''x''),
                  (''mysql-backups/shop_20240401.sql.gz'', ''b''),
                  (''other/shop_20240306.sql.gz'', ''c'')],
           trace = tr @ [Call Clean_oss_backups, List_objects ''mysql-backups/'',
             Logger ERROR (Oss_file_failed ''mysql-backups/notes.sql.gz'' ValueError),
             Delete_object ''mysql-backups/shop_20240306.sql.gz'',
             Logger INFO (Oss_deleted ''mysql-backups/shop_20240306.sql.gz'')]\<rparr>)" for tr
    by (simp add: remote_defs parse_keys ord_examples self0_def cfg0_def env_past_midnight_def
        env0_def s_remote_def)
  have refused: "clean_oss_backups self0 env_april_refusing s_remote
      = (None, s_remote\<lparr>trace := [Call Clean_oss_backups, List_objects ''mysql-backups/'',
           Logger ERROR (Oss_file_failed ''mysql-backups/notes.sql.gz'' ValueError),
           Delete_object ''mysql-backups/shop_20240306.sql.gz'',
           Logger ERROR
             (Oss_file_failed ''mysql-backups/shop_20240306.sql.gz'' OssError)]\<rparr>)"
    by (simp add: remote_defs parse_keys ord_examples self0_def cfg0_def env_april_refusing_def
        env_april_def env0_def s_remote_def)
  have accepted: "clean_oss_backups self0 env_april (s_remote\<lparr>trace := tr\<rparr>)
      = (None, \<lparr>local_dir = [],
           oss = [(''mysql-backups/notes.sql.gz'', ''x''),
                  (''mysql-backups/shop_20240401.sql.gz'', ''b''),
                  (''other/shop_20240306.sql.gz'', ''c'')],
           trace = tr @ [Call Clean_oss_backups, List_objects ''mysql-backups/'',
             Logger ERROR (Oss_file_failed ''mysql-backups/notes.sql.gz'' ValueError),
             Delete_object ''mysql-backups/shop_20240306.sql.gz'',
             Logger INFO (Oss_deleted ''mysql-backups/shop_20240306.sql.gz'')]\<rparr>)" for tr
    by (simp add: remote_defs parse_keys ord_examples self0_def cfg0_def env_april_def
        env0_def s_remote_def)
  have no_listing: "fst (clean_oss_backups self0 env_april_no_listing st) = Some OssError"
    for st
    by (simp add: clean_oss_backups_def cutoff_date_def ord_examples Let_def self0_def
        cfg0_def env_april_no_listing_def env_april_def env0_def)
  have clocks: "dt_date (now env_past_midnight) = dt_date (now env_midnight)"
    "now env_april_refusing = now env_april" "now env_april_no_listing = now env_april"
    by (simp_all add: env_past_midnight_def env_midnight_def env_april_refusing_def
        env_april_no_listing_def)
  have before: "map_of (oss s_remote) ''mysql-backups/shop_20240306.sql.gz'' = Some ''a''"
    by (simp add: s_remote_def)
  have normal: "fst (clean_oss_backups self0 env_april s_remote) = None"
    by (simp add: remote_sweep_s_remote)
  show ?thesis
    using clocks before normal no_listing unfolding first refused
    by (simp add: second accepted)
qed


section \<open>Failure of the compression\<close>

text \<open>
  Claim C10.  If the dump succeeds and the compression fails partway, the backup step
  raises; before that its handler unlinks the raw dump (the last recorded event, and
  the file is gone unless the operating system refuses), while the compressed file of
  today stays in the directory with the bytes written so far.  The run reports failure
  and leaves the directory in that state.
\<close>

theorem compression_failure_removes_raw_dump:
  assumes "\<not> dump_fails e" and "gzip_fault e = Some part"
  shows "fst (run_mysqldump self e s) = Inl OSError
    \<and> trace (snd (run_mysqldump self e s))
        = trace s @ [Call Run_mysqldump, Open_wb (dump_file self), Subprocess_run,
            Open_wb (gz_file self), Logger ERROR (Backup_failed OSError),
            Unlink (dump_file self)]
    \<and> map_of (local_dir (snd (run_mysqldump self e s))) (gz_file self) = Some part
    \<and> (\<not> unlink_fails e (dump_file self)
          \<longrightarrow> \<not> exists_file (dump_file self) (snd (run_mysqldump self e s)))
    \<and> fst (execute self e s) = False
    \<and> local_dir (snd (execute self e s)) = local_dir (snd (run_mysqldump self e s))"
  using dump_neq_gz [of self]
  by (simp add: execute_def run_mysqldump_gzip_fails [OF assms] log_def exists_file_def
      update_conv' delete_conv')

theorem compression_failure_removes_raw_dump_witness:
  "dump_launch env_gzip_fails = None
   \<and> dump_returncode env_gzip_fails = 0
   \<and> gzip_fault env_gzip_fails = Some ''GZ:CRE''
   \<and> \<not> unlink_fails env_gzip_fails ''shop_20240310.sql''
   \<and> fst (run_mysqldump self0 env_gzip_fails s0) = Inl OSError
   \<and> map_of (local_dir (snd (run_mysqldump self0 env_gzip_fails s0))) ''shop_20240310.sql.gz''
       = Some ''GZ:CRE''
   \<and> \<not> exists_file ''shop_20240310.sql'' (snd (run_mysqldump self0 env_gzip_fails s0))
   \<and> fst (execute self0 env_gzip_fails s0) = False"
proof -
  have l: "dump_launch env_gzip_fails = None"
    and c: "dump_returncode env_gzip_fails = 0"
    and h2: "gzip_fault env_gzip_fails = Some ''GZ:CRE''"
    and h3: "\<not> unlink_fails env_gzip_fails (dump_file self0)"
    by (simp_all add: env_gzip_fails_def env0_def)
  from l c have h1: "\<not> dump_fails env_gzip_fails"
    by (simp add: dump_fails_def)
  have g: "gz_file self0 = ''shop_20240310.sql.gz''"
    and d: "dump_file self0 = ''shop_20240310.sql''"
    by (simp_all add: concrete_defs)
  note t = compression_failure_removes_raw_dump [OF h1 h2, of self0 s0, unfolded g d]
  show ?thesis
    using l c h2 h3 [unfolded d] t by blast
qed

text \<open>
  Claim C6, as amended.  Whenever the backup step returns a compressed file, the
  compression did not fail, the file holds the complete compressed dump, and the raw
  dump was unlinked after the compressed file had been written and closed (the order of
  the recorded events).  Whenever the compression fails, the step returns no file and
  the run reports failure.  Whenever the dump or the compression fails, the handler of
  the step unlinks the raw dump although the step has completed no compressed file (the
  events the step recorded hold the unlink and no completed compression); the raw dump
  is then gone unless the operating system refuses the unlink.  Whenever dump and
  compression succeed and only the unlink of the raw dump is refused, the step raises
  and leaves the raw dump beside the complete compressed file.
\<close>

theorem raw_dump_removed_after_compression:
  "(run_mysqldump self e s = (Inr p, s') \<longrightarrow>
      gzip_fault e = None
      \<and> p = gz_file self
      \<and> map_of (local_dir s') p = Some (gzip e (dump_stdout e))
      \<and> \<not> exists_file (dump_file self) s'
      \<and> trace s' = trace s @ [Call Run_mysqldump, Open_wb (dump_file self), Subprocess_run,
            Open_wb (gz_file self), Gzip_done (gz_file self), Unlink (dump_file self),
            Logger INFO (Local_backup_ok (gz_file self))])
   \<and> (gzip_fault e \<noteq> None \<longrightarrow>
        (\<forall>q. fst (run_mysqldump self e s) \<noteq> Inr q) \<and> fst (execute self e s) = False)
   \<and> (dump_fails e \<or> gzip_fault e \<noteq> None \<longrightarrow>
        Unlink (dump_file self)
          \<in> set (drop (length (trace s)) (trace (snd (run_mysqldump self e s))))
        \<and> Gzip_done (gz_file self)
          \<notin> set (drop (length (trace s)) (trace (snd (run_mysqldump self e s))))
        \<and> (\<not> unlink_fails e (dump_file self)
              \<longrightarrow> \<not> exists_file (dump_file self) (snd (run_mysqldump self e s))))
   \<and> (\<not> dump_fails e \<and> gzip_fault e = None \<and> unlink_fails e (dump_file self) \<longrightarrow>
        fst (run_mysqldump self e s) = Inl OSError
        \<and> map_of (local_dir (snd (run_mysqldump self e s))) (dump_file self)
            = Some (dump_stdout e)
        \<and> map_of (local_dir (snd (run_mysqldump self e s))) (gz_file self)
            = Some (gzip e (dump_stdout e)))"
proof (intro conjI)
  show "run_mysqldump self e s = (Inr p, s') \<longrightarrow>
      gzip_fault e = None
      \<and> p = gz_file self
      \<and> map_of (local_dir s') p = Some (gzip e (dump_stdout e))
      \<and> \<not> exists_file (dump_file self) s'
      \<and> trace s' = trace s @ [Call Run_mysqldump, Open_wb (dump_file self), Subprocess_run,
            Open_wb (gz_file self), Gzip_done (gz_file self), Unlink (dump_file self),
            Logger INFO (Local_backup_ok (gz_file self))]"
  proof (intro impI conjI)
    assume r: "run_mysqldump self e s = (Inr p, s')"
    show "gzip_fault e = None" using run_mysqldump_Inr [OF r] by simp
    show "p = gz_file self" by (rule run_mysqldump_Inr_state(1) [OF r])
    show "map_of (local_dir s') p = Some (gzip e (dump_stdout e))"
      using run_mysqldump_Inr_gz(1) [OF r] run_mysqldump_Inr_state(1) [OF r] by simp
    show "\<not> exists_file (dump_file self) s'" by (rule run_mysqldump_Inr_gz(2) [OF r])
    show "trace s' = trace s @ [Call Run_mysqldump, Open_wb (dump_file self), Subprocess_run,
            Open_wb (gz_file self), Gzip_done (gz_file self), Unlink (dump_file self),
            Logger INFO (Local_backup_ok (gz_file self))]"
      by (simp add: run_mysqldump_Inr_state(2) [OF r])
  qed
next
  show "gzip_fault e \<noteq> None \<longrightarrow>
        (\<forall>q. fst (run_mysqldump self e s) \<noteq> Inr q) \<and> fst (execute self e s) = False"
  proof (intro impI conjI)
    assume f: "gzip_fault e \<noteq> None"
    have no: "fst (run_mysqldump self e s) \<noteq> Inr q" for q
    proof
      assume "fst (run_mysqldump self e s) = Inr q"
      then have "run_mysqldump self e s = (Inr q, snd (run_mysqldump self e s))"
        by (simp add: prod_eq_iff)
      from run_mysqldump_Inr [OF this] f show False by simp
    qed
    then show "\<forall>q. fst (run_mysqldump self e s) \<noteq> Inr q" by blast
    show "fst (execute self e s) = False"
    proof (cases "run_mysqldump self e s")
      case (Pair r s1)
      with no show ?thesis
        by (cases r) (auto simp: execute_def)
    qed
  qed
next
  show "dump_fails e \<or> gzip_fault e \<noteq> None \<longrightarrow>
        Unlink (dump_file self)
          \<in> set (drop (length (trace s)) (trace (snd (run_mysqldump self e s))))
        \<and> Gzip_done (gz_file self)
          \<notin> set (drop (length (trace s)) (trace (snd (run_mysqldump self e s))))
        \<and> (\<not> unlink_fails e (dump_file self)
              \<longrightarrow> \<not> exists_file (dump_file self) (snd (run_mysqldump self e s)))"
  proof
    assume f: "dump_fails e \<or> gzip_fault e \<noteq> None"
    show "Unlink (dump_file self)
          \<in> set (drop (length (trace s)) (trace (snd (run_mysqldump self e s))))
        \<and> Gzip_done (gz_file self)
          \<notin> set (drop (length (trace s)) (trace (snd (run_mysqldump self e s))))
        \<and> (\<not> unlink_fails e (dump_file self)
              \<longrightarrow> \<not> exists_file (dump_file self) (snd (run_mysqldump self e s)))"
    proof (cases "dump_fails e")
      case True
      show ?thesis
        by (simp add: run_mysqldump_dump_fails [OF True] exists_file_def delete_conv')
    next
      case False
      with f obtain part where part: "gzip_fault e = Some part" by auto
      show ?thesis
        using dump_neq_gz [of self]
        by (simp add: run_mysqldump_gzip_fails [OF False part] exists_file_def delete_conv')
    qed
  qed
next
  show "\<not> dump_fails e \<and> gzip_fault e = None \<and> unlink_fails e (dump_file self) \<longrightarrow>
        fst (run_mysqldump self e s) = Inl OSError
        \<and> map_of (local_dir (snd (run_mysqldump self e s))) (dump_file self)
            = Some (dump_stdout e)
        \<and> map_of (local_dir (snd (run_mysqldump self e s))) (gz_file self)
            = Some (gzip e (dump_stdout e))"
  proof
    assume h: "\<not> dump_fails e \<and> gzip_fault e = None \<and> unlink_fails e (dump_file self)"
    then have a: "\<not> dump_fails e" and b: "gzip_fault e = None"
      and c: "unlink_fails e (dump_file self)"
      by simp_all
    show "fst (run_mysqldump self e s) = Inl OSError
        \<and> map_of (local_dir (snd (run_mysqldump self e s))) (dump_file self)
            = Some (dump_stdout e)
        \<and> map_of (local_dir (snd (run_mysqldump self e s))) (gz_file self)
            = Some (gzip e (dump_stdout e))"
      using dump_neq_gz [of self]
      by (simp add: run_mysqldump_ok [OF a b] c update_conv')
  qed
qed

theorem raw_dump_removed_after_compression_witness:
  "run_mysqldump self0 env0 s0 = (Inr ''shop_20240310.sql.gz'', snd (run_mysqldump self0 env0 s0))
   \<and> map_of (local_dir (snd (run_mysqldump self0 env0 s0))) ''shop_20240310.sql.gz''
       = Some ''GZ:CREATE TABLE t;''
   \<and> trace (snd (run_mysqldump self0 env0 s0))
       = [Call Run_mysqldump, Open_wb ''shop_20240310.sql'', Subprocess_run,
          Open_wb ''shop_20240310.sql.gz'', Gzip_done ''shop_20240310.sql.gz'',
          Unlink ''shop_20240310.sql'', Logger INFO (Local_backup_ok ''shop_20240310.sql.gz'')]
   \<and> gzip_fault env_gzip_fails \<noteq> None
   \<and> fst (run_mysqldump self0 env_gzip_fails s0) \<noteq> Inr ''shop_20240310.sql.gz''
   \<and> fst (execute self0 env_gzip_fails s0) = False
   \<and> Unlink ''shop_20240310.sql''
       \<in> set (drop (length (trace s0)) (trace (snd (run_mysqldump self0 env_gzip_fails s0))))
   \<and> Gzip_done ''shop_20240310.sql.gz''
       \<notin> set (drop (length (trace s0)) (trace (snd (run_mysqldump self0 env_gzip_fails s0))))
   \<and> \<not> unlink_fails env_gzip_fails ''shop_20240310.sql''
   \<and> \<not> exists_file ''shop_20240310.sql'' (snd (run_mysqldump self0 env_gzip_fails s0))
   \<and> \<not> dump_fails env_unlink_refused
   \<and> gzip_fault env_unlink_refused = None
   \<and> unlink_fails env_unlink_refused ''shop_20240310.sql''
   \<and> fst (run_mysqldump self0 env_unlink_refused s0) = Inl OSError
   \<and> map_of (local_dir (snd (run_mysqldump self0 env_unlink_refused s0))) ''shop_20240310.sql''
       = Some ''CREATE TABLE t;''
   \<and> map_of (local_dir (snd (run_mysqldump self0 env_unlink_refused s0)))
        ''shop_20240310.sql.gz'' = Some ''GZ:CREATE TABLE t;''"
proof -
  have "fst (run_mysqldump self0 env0 s0) = Inr ''shop_20240310.sql.gz''"
    by (subst backup_s0) (simp_all add: env0_def dump_fails_def)
  then have r: "run_mysqldump self0 env0 s0
      = (Inr ''shop_20240310.sql.gz'', snd (run_mysqldump self0 env0 s0))"
    by (simp add: prod_eq_iff)
  have f: "gzip_fault env_gzip_fails \<noteq> None"
    and u: "\<not> unlink_fails env_gzip_fails ''shop_20240310.sql''"
    by (simp_all add: env_gzip_fails_def env0_def)
  from f have f': "dump_fails env_gzip_fails \<or> gzip_fault env_gzip_fails \<noteq> None" ..
  have h1: "\<not> dump_fails env_unlink_refused"
    and h2: "gzip_fault env_unlink_refused = None"
    and h3: "unlink_fails env_unlink_refused ''shop_20240310.sql''"
    by (simp_all add: env_unlink_refused_def env0_def dump_fails_def)
  have g: "gz_file self0 = ''shop_20240310.sql.gz''"
    and d: "dump_file self0 = ''shop_20240310.sql''"
    and z: "gzip env0 (dump_stdout env0) = ''GZ:CREATE TABLE t;''"
    and z1: "gzip env_unlink_refused ''CREATE TABLE t;'' = ''GZ:CREATE TABLE t;''"
    and z2: "dump_stdout env_unlink_refused = ''CREATE TABLE t;''"
    and t0: "trace s0 = []"
    by (simp_all add: concrete_defs env_unlink_refused_def)
  note a = raw_dump_removed_after_compression
             [of self0 env0 s0 "''shop_20240310.sql.gz''" "snd (run_mysqldump self0 env0 s0)",
              THEN conjunct1, rule_format, OF r, unfolded g d z t0]
  note b = raw_dump_removed_after_compression
             [of self0 env_gzip_fails s0, THEN conjunct2, THEN conjunct1, rule_format, OF f]
  note c = raw_dump_removed_after_compression
             [of self0 env_gzip_fails s0, THEN conjunct2, THEN conjunct2, THEN conjunct1,
              rule_format, OF f', unfolded g d]
  note c3 = raw_dump_removed_after_compression
             [of self0 env_gzip_fails s0, THEN conjunct2, THEN conjunct2, THEN conjunct1,
              THEN mp, OF f', THEN conjunct2, THEN conjunct2, unfolded d, THEN mp, OF u]
  note e = raw_dump_removed_after_compression
             [of self0 env_unlink_refused s0, THEN conjunct2, THEN conjunct2, THEN conjunct2,
              unfolded g d z2 z1, THEN mp, OF conjI [OF h1 conjI [OF h2 h3]]]
  show ?thesis
    using r f u h1 h2 h3 a b c c3 e by simp
qed

text \<open>
  Claim C6 as written: the raw dump would be removed only after the compressed file is
  fully written and closed.  With a compression that fails after six bytes the handler
  unlinks the raw dump although the compression never completed and the compressed file
  holds a fragment.
\<close>

theorem raw_dump_removed_before_compression_complete_counterexample:
  "Unlink ''shop_20240310.sql'' \<in> set (trace (snd (run_mysqldump self0 env_gzip_fails s0)))
   \<and> \<not> exists_file ''shop_20240310.sql'' (snd (run_mysqldump self0 env_gzip_fails s0))
   \<and> Gzip_done ''shop_20240310.sql.gz''
        \<notin> set (trace (snd (run_mysqldump self0 env_gzip_fails s0)))
   \<and> map_of (local_dir (snd (run_mysqldump self0 env_gzip_fails s0))) ''shop_20240310.sql.gz''
       = Some ''GZ:CRE''
   \<and> gzip env_gzip_fails (dump_stdout env_gzip_fails) = ''GZ:CREATE TABLE t;''"
proof -
  have h1: "\<not> dump_fails env_gzip_fails"
    and h2: "gzip_fault env_gzip_fails = Some ''GZ:CRE''"
    by (simp_all add: env_gzip_fails_def env0_def dump_fails_def)
  note r = run_mysqldump_gzip_fails [OF h1 h2, of self0 s0]
  show ?thesis
    unfolding r
    by (simp add: concrete_defs exists_file_def update_conv' delete_conv')
qed

section \<open>The retention rule of the local sweep\<close>

lemma date_str_of_name:
  "CHR ''_'' \<notin> set w \<Longrightarrow> file_date_str (db @ ''_'' @ w) = remove_sql_gz w"
  using last_part_append [of "CHR ''_''" w db] by (simp add: file_date_str_def)

lemma parse_any_db:
  "strptime_Ymd (file_date_str (db @ ''_20240306.sql.gz'')) = Inr (Date 2024 3 6)"
  "strptime_Ymd (file_date_str (db @ ''_20240307.sql.gz'')) = Inr (Date 2024 3 7)"
proof -
  have "file_date_str (db @ ''_'' @ ''20240306.sql.gz'') = remove_sql_gz ''20240306.sql.gz''"
    by (rule date_str_of_name) simp
  then show "strptime_Ymd (file_date_str (db @ ''_20240306.sql.gz'')) = Inr (Date 2024 3 6)"
    by (simp add: parse_defs)
  have "file_date_str (db @ ''_'' @ ''20240307.sql.gz'') = remove_sql_gz ''20240307.sql.gz''"
    by (rule date_str_of_name) simp
  then show "strptime_Ymd (file_date_str (db @ ''_20240307.sql.gz'')) = Inr (Date 2024 3 7)"
    by (simp add: parse_defs)
qed

lemma expired_local_unfold:
  assumes "cutoff_date (now e) (keep_local_days (cfg self)) = Inr c"
  shows "c = (ymd2ord (dt_date (now e)) - keep_local_days (cfg self), dt_micros (now e))"
    and "expired_local self e name = expired c name"
  using assms by (auto simp: cutoff_date_def Let_def expired_local_def split: if_splits)

lemma sweep_s0_plain:
  "clean_local_backups self0 env0 s0
   = (None, \<lparr>local_dir = [(''notes.txt'', ''n'')],
      oss = [], trace = [Call Clean_local_backups, Glob, Unlink ''shop_20240306.sql.gz'',
         Logger INFO (Local_deleted ''shop_20240306.sql.gz''), Unlink ''shop_20240307.sql.gz'',
         Logger INFO (Local_deleted ''shop_20240307.sql.gz'')]\<rparr>)"
  by (simp add: sweep_defs parse_names ord_examples self0_def cfg0_def env0_def s0_def)

lemma sweep_s_bad:
  "clean_local_backups self0 env0 \<lparr>local_dir = (''notes.sql.gz'', ''n'') # dir, oss = bk, trace = tr\<rparr>
   = (Some ValueError, \<lparr>local_dir = (''notes.sql.gz'', ''n'') # dir, oss = bk,
        trace = tr @ [Call Clean_local_backups, Glob]\<rparr>)"
  by (simp add: sweep_defs parse_names ord_examples self0_def cfg0_def env0_def)

text \<open>
  Claim C2, as amended.  A local sweep that runs to its end removes exactly the stored
  \<^verbatim>\<open>*.sql.gz\<close> entries that are expired and whose unlink the system does not refuse.
  A name is expired if and only if its date parses and that date, taken at midnight, is
  strictly before the clock reading of the sweep (date and time of day) less
  \<open>keep_local_days\<close> days: the date is before today minus \<open>keep_local_days\<close>, or it is
  that very day and the sweep runs after 00:00:00.000000.  So with three days kept on
  2024-03-10 the artifact of 2024-03-06 is expired at any time of day, and the artifact
  of 2024-03-07 is expired at every time of day except midnight exactly.
\<close>

theorem local_sweep_deletes_before_cutoff:
  assumes "clean_local_backups self e s = (None, s')"
  shows "local_dir s' = filter (\<lambda>kv. \<not> (endswith ''.sql.gz'' (fst kv)
                                      \<and> expired_local self e (fst kv)
                                      \<and> \<not> unlink_fails e (fst kv))) (local_dir s)
    \<and> (\<forall>name. expired_local self e name
          \<longleftrightarrow> (\<exists>d. strptime_Ymd (file_date_str name) = Inr d
                 \<and> (ymd2ord d < ymd2ord (dt_date (now e)) - keep_local_days (cfg self)
                      \<or> (ymd2ord d = ymd2ord (dt_date (now e)) - keep_local_days (cfg self)
                           \<and> 0 < dt_micros (now e)))))
    \<and> (dt_date (now e) = Date 2024 3 10 \<and> keep_local_days (cfg self) = 3
          \<longrightarrow> expired_local self e (db @ ''_20240306.sql.gz'')
              \<and> (expired_local self e (db @ ''_20240307.sql.gz'') \<longleftrightarrow> 0 < dt_micros (now e)))"
proof -
  from clean_local_backups_None [OF assms] obtain c
    where c: "cutoff_date (now e) (keep_local_days (cfg self)) = Inr c"
      and l: "local_dir s' = filter (\<lambda>kv. \<not> (endswith ''.sql.gz'' (fst kv) \<and> expired c (fst kv)
                                      \<and> \<not> unlink_fails e (fst kv))) (local_dir s)"
    by blast
  note u = expired_local_unfold [OF c]
  have a: "local_dir s' = filter (\<lambda>kv. \<not> (endswith ''.sql.gz'' (fst kv)
                                      \<and> expired_local self e (fst kv)
                                      \<and> \<not> unlink_fails e (fst kv))) (local_dir s)"
    by (simp add: l u(2))
  have b: "expired_local self e name
          \<longleftrightarrow> (\<exists>d. strptime_Ymd (file_date_str name) = Inr d
                 \<and> (ymd2ord d < ymd2ord (dt_date (now e)) - keep_local_days (cfg self)
                      \<or> (ymd2ord d = ymd2ord (dt_date (now e)) - keep_local_days (cfg self)
                           \<and> 0 < dt_micros (now e))))" for name
    by (cases "strptime_Ymd (file_date_str name)")
       (simp_all add: u expired_def before_cutoff_def)
  have d: "expired_local self e (db @ ''_20240306.sql.gz'')
              \<and> (expired_local self e (db @ ''_20240307.sql.gz'') \<longleftrightarrow> 0 < dt_micros (now e))"
    if "dt_date (now e) = Date 2024 3 10" "keep_local_days (cfg self) = 3"
    using that by (simp add: b parse_any_db ord_examples)
  show ?thesis using a b d by blast
qed

theorem local_sweep_deletes_before_cutoff_witness:
  "clean_local_backups self0 env0 s0 = (None, snd (clean_local_backups self0 env0 s0))
   \<and> dt_date (now env0) = Date 2024 3 10 \<and> keep_local_days (cfg self0) = 3
   \<and> 0 < dt_micros (now env0)
   \<and> local_dir (snd (clean_local_backups self0 env0 s0)) = [(''notes.txt'', ''n'')]
   \<and> expired_local self0 env0 ''shop_20240306.sql.gz''
   \<and> expired_local self0 env0 ''shop_20240307.sql.gz''"
proof -
  have r: "clean_local_backups self0 env0 s0 = (None, snd (clean_local_backups self0 env0 s0))"
    and l: "local_dir (snd (clean_local_backups self0 env0 s0)) = [(''notes.txt'', ''n'')]"
    by (simp_all add: sweep_s0_plain)
  have h: "dt_date (now env0) = Date 2024 3 10 \<and> keep_local_days (cfg self0) = 3"
    and m: "0 < dt_micros (now env0)"
    by (simp_all add: env0_def self0_def cfg0_def)
  note t = local_sweep_deletes_before_cutoff [OF r, of "''shop''", THEN conjunct2, THEN conjunct2,
      rule_format, OF h]
  show ?thesis
    using r l h m t by simp
qed

text \<open>
  Claim C2 as written keeps the artifact of 2024-03-07 at any time of day.  A sweep at
  noon of 2024-03-10 with three days kept removes it, although its date is not before
  today minus three days.
\<close>

theorem local_sweep_time_of_day_counterexample:
  "keep_local_days (cfg self0) = 3
   \<and> now env0 = Datetime (Date 2024 3 10) 43200000000
   \<and> strptime_Ymd (file_date_str ''shop_20240307.sql.gz'') = Inr (Date 2024 3 7)
   \<and> \<not> ymd2ord (Date 2024 3 7) < ymd2ord (Date 2024 3 10) - 3
   \<and> exists_file ''shop_20240307.sql.gz'' s0
   \<and> fst (clean_local_backups self0 env0 s0) = None
   \<and> \<not> exists_file ''shop_20240307.sql.gz'' (snd (clean_local_backups self0 env0 s0))"
  by (simp add: sweep_s0_plain parse_names ord_examples exists_file_def)
     (simp add: self0_def cfg0_def env0_def s0_def)


section \<open>Names without a date\<close>

lemma execute_s_bad:
  "execute self0 env0 s_bad =
    (False, \<lparr>local_dir = [(''notes.sql.gz'', ''n''), (''shop_20240101.sql.gz'', ''old''),
          (''shop_20240310.sql.gz'', ''GZ:CREATE TABLE t;'')],
      oss = [(''mysql-backups/notes.sql.gz'', ''n''),
             (''mysql-backups/shop_20240101.sql.gz'', ''old''),
             (''mysql-backups/shop_20240310.sql.gz'', ''GZ:CREATE TABLE t;'')],
      trace = [Call Run_mysqldump, Open_wb ''shop_20240310.sql'', Subprocess_run,
         Open_wb ''shop_20240310.sql.gz'', Gzip_done ''shop_20240310.sql.gz'',
         Unlink ''shop_20240310.sql'', Logger INFO (Local_backup_ok ''shop_20240310.sql.gz''),
         Call Upload_to_oss, Put_object ''mysql-backups/shop_20240310.sql.gz'',
         Logger INFO (Oss_upload_ok ''mysql-backups/shop_20240310.sql.gz''),
         Call Clean_local_backups, Glob, Logger CRITICAL (Flow_aborted ValueError)]\<rparr>)"
proof -
  have r: "run_mysqldump self0 env0 s_bad =
    (Inr ''shop_20240310.sql.gz'',
     \<lparr>local_dir = [(''notes.sql.gz'', ''n''), (''shop_20240101.sql.gz'', ''old''),
          (''shop_20240310.sql.gz'', ''GZ:CREATE TABLE t;'')],
      oss = [(''mysql-backups/notes.sql.gz'', ''n''),
             (''mysql-backups/shop_20240101.sql.gz'', ''old'')],
      trace = [Call Run_mysqldump, Open_wb ''shop_20240310.sql'', Subprocess_run,
         Open_wb ''shop_20240310.sql.gz'', Gzip_done ''shop_20240310.sql.gz'',
         Unlink ''shop_20240310.sql'', Logger INFO (Local_backup_ok ''shop_20240310.sql.gz'')]\<rparr>)"
    by (simp add: run_mysqldump_ok dump_fails_def cfg0_def self0_def s_bad_def dump_file_def gz_file_eq env0_def)
  have u: "upload_to_oss self0 env0 ''shop_20240310.sql.gz''
     \<lparr>local_dir = [(''notes.sql.gz'', ''n''), (''shop_20240101.sql.gz'', ''old''),
          (''shop_20240310.sql.gz'', ''GZ:CREATE TABLE t;'')],
      oss = [(''mysql-backups/notes.sql.gz'', ''n''),
             (''mysql-backups/shop_20240101.sql.gz'', ''old'')], trace = tr\<rparr>
    = (None, \<lparr>local_dir = [(''notes.sql.gz'', ''n''), (''shop_20240101.sql.gz'', ''old''),
          (''shop_20240310.sql.gz'', ''GZ:CREATE TABLE t;'')],
      oss = [(''mysql-backups/notes.sql.gz'', ''n''),
             (''mysql-backups/shop_20240101.sql.gz'', ''old''),
             (''mysql-backups/shop_20240310.sql.gz'', ''GZ:CREATE TABLE t;'')],
      trace = tr @ [Call Upload_to_oss, Put_object ''mysql-backups/shop_20240310.sql.gz'',
         Logger INFO (Oss_upload_ok ''mysql-backups/shop_20240310.sql.gz'')]\<rparr>)" for tr
    by (simp add: upload_to_oss_def emit_def log_def Let_def env0_def self0_def cfg0_def)
  show ?thesis
    by (simp add: execute_def r u sweep_s_bad log_def)
qed

lemma remote_sweep_s_bad:
  "clean_oss_backups self0 env0 s_bad
       = (None, s_bad\<lparr>oss := [(''mysql-backups/notes.sql.gz'', ''n'')],
            trace := [Call Clean_oss_backups, List_objects ''mysql-backups/'',
              Logger ERROR (Oss_file_failed ''mysql-backups/notes.sql.gz'' ValueError),
              Delete_object ''mysql-backups/shop_20240101.sql.gz'',
              Logger INFO (Oss_deleted ''mysql-backups/shop_20240101.sql.gz'')]\<rparr>)"
proof -
  have k: "strptime_Ymd (file_date_str (path_name ''mysql-backups/shop_20240101.sql.gz''))
      = Inr (Date 2024 1 1)"
    by (simp add: parse_defs)
  show ?thesis
    by (simp add: remote_defs parse_keys k ord_examples self0_def cfg0_def env0_def s_bad_def)
qed

text \<open>
  Claim C3 at a failing input.  The local directory lists \<open>notes.sql.gz\<close> before an
  old backup.  The local sweep raises \<^verbatim>\<open>ValueError\<close> at that name, logs nothing, leaves
  the old backup although it is expired, and the run reports failure with the upload
  already done.  The remote sweep meets the same two names under the prefix, logs the
  first, goes on and deletes the second.
\<close>

theorem local_sweep_aborts_on_malformed_name:
  "clean_local_backups self0 env0 s_bad
     = (Some ValueError, s_bad\<lparr>trace := [Call Clean_local_backups, Glob]\<rparr>)
   \<and> expired_local self0 env0 ''shop_20240101.sql.gz''
   \<and> exists_file ''shop_20240101.sql.gz'' (snd (clean_local_backups self0 env0 s_bad))
   \<and> fst (execute self0 env0 s_bad) = False
   \<and> map_of (oss (snd (execute self0 env0 s_bad))) ''mysql-backups/shop_20240310.sql.gz''
       = Some ''GZ:CREATE TABLE t;''
   \<and> last (trace (snd (execute self0 env0 s_bad))) = Logger CRITICAL (Flow_aborted ValueError)
   \<and> clean_oss_backups self0 env0 s_bad
       = (None, s_bad\<lparr>oss := [(''mysql-backups/notes.sql.gz'', ''n'')],
            trace := [Call Clean_oss_backups, List_objects ''mysql-backups/'',
              Logger ERROR (Oss_file_failed ''mysql-backups/notes.sql.gz'' ValueError),
              Delete_object ''mysql-backups/shop_20240101.sql.gz'',
              Logger INFO (Oss_deleted ''mysql-backups/shop_20240101.sql.gz'')]\<rparr>)"
proof -
  have a: "clean_local_backups self0 env0 s_bad
     = (Some ValueError, s_bad\<lparr>trace := [Call Clean_local_backups, Glob]\<rparr>)"
    by (simp add: s_bad_def sweep_s_bad)
  have b: "expired_local self0 env0 ''shop_20240101.sql.gz''"
    by (simp add: expired_local_def cutoff_date_def expired_def before_cutoff_def parse_names
        ord_examples self0_def cfg0_def env0_def Let_def)
  have c: "exists_file ''shop_20240101.sql.gz'' (snd (clean_local_backups self0 env0 s_bad))"
    by (simp add: a) (simp add: s_bad_def exists_file_def)
  show ?thesis
    using b c by (simp add: a remote_sweep_s_bad execute_s_bad)
qed


section \<open>The exit status\<close>

text \<open>The main block by cases, and the fatal failures, each of which gives status 1.\<close>

lemma main_cases:
  "main getenv c e s =
     (if filter (\<lambda>var. case getenv var of None \<Rightarrow> True | Some v \<Rightarrow> v = []) required_envs \<noteq> []
      then (1, log ERROR (Missing_env
               (filter (\<lambda>var. case getenv var of None \<Rightarrow> True | Some v \<Rightarrow> v = [])
                  required_envs)) s)
      else if mkdir_fails e \<or> bucket_init e \<noteq> None then (1, emit Mkdir s)
      else (if fst (execute \<lparr>cfg = c, today = strftime_Ymd (dt_date (now_init e))\<rparr> e
                      (emit Mkdir s)) then 0 else 1,
            snd (execute \<lparr>cfg = c, today = strftime_Ymd (dt_date (now_init e))\<rparr> e
                      (emit Mkdir s))))"
  by (auto simp: main_def Let_def BackupManager_init_def split: prod.splits option.splits)

lemma missing_nonempty:
  assumes "\<exists>var \<in> set required_envs. getenv var = None \<or> getenv var = Some []"
  shows "filter (\<lambda>var. case getenv var of None \<Rightarrow> True | Some v \<Rightarrow> v = []) required_envs \<noteq> []"
  using assms by (force simp: filter_empty_conv)

lemma execute_dump_fails: "dump_fails e \<Longrightarrow> fst (execute self e s) = False"
  by (simp add: execute_def run_mysqldump_dump_fails)

lemma run_mysqldump_Inr_fst:
  "fst (run_mysqldump self e s) = Inr p \<Longrightarrow>
     \<not> dump_fails e \<and> gzip_fault e = None \<and> \<not> unlink_fails e (dump_file self)"
proof -
  assume "fst (run_mysqldump self e s) = Inr p"
  then have "run_mysqldump self e s = (Inr p, snd (run_mysqldump self e s))"
    by (simp add: prod_eq_iff)
  from run_mysqldump_Inr [OF this] show ?thesis .
qed

lemma execute_gzip_fails: "gzip_fault e \<noteq> None \<Longrightarrow> fst (execute self e s) = False"
proof (cases "run_mysqldump self e s")
  case (Pair r s1)
  assume f: "gzip_fault e \<noteq> None"
  show ?thesis
  proof (cases r)
    case (Inl x)
    with Pair show ?thesis by (simp add: execute_def)
  next
    case (Inr p)
    with Pair have "fst (run_mysqldump self e s) = Inr p" by simp
    from run_mysqldump_Inr_fst [OF this] f show ?thesis by simp
  qed
qed

lemma execute_upload_fails_gen: "put_result e \<noteq> None \<Longrightarrow> fst (execute self e s) = False"
proof (cases "run_mysqldump self e s")
  case (Pair r s1)
  assume f: "put_result e \<noteq> None"
  then obtain x where x: "put_result e = Some x" by auto
  show ?thesis
  proof (cases r)
    case (Inl y)
    with Pair show ?thesis by (simp add: execute_def)
  next
    case (Inr p)
    with Pair have r: "run_mysqldump self e s = (Inr p, s1)" by simp
    have gz: "map_of (local_dir s1) (gz_file self) = Some (gzip e (dump_stdout e))"
      by (rule run_mysqldump_Inr_gz(1) [OF r])
    show ?thesis
      by (simp add: execute_def r run_mysqldump_Inr_state(1) [OF r]
          upload_to_oss_fails [OF gz x])
  qed
qed

lemma fatal_failure_exits_one:
  shows "\<exists>var \<in> set required_envs. getenv var = None \<or> getenv var = Some []
           \<Longrightarrow> main getenv c e s
                 = (1, log ERROR (Missing_env
                      (filter (\<lambda>var. case getenv var of None \<Rightarrow> True | Some v \<Rightarrow> v = [])
                         required_envs)) s)"
    and "mkdir_fails e \<or> bucket_init e \<noteq> None \<Longrightarrow> fst (main getenv c e s) = 1"
    and "dump_fails e \<Longrightarrow> fst (main getenv c e s) = 1"
    and "gzip_fault e \<noteq> None \<Longrightarrow> fst (main getenv c e s) = 1"
    and "put_result e \<noteq> None \<Longrightarrow> fst (main getenv c e s) = 1"
proof -
  show "main getenv c e s
          = (1, log ERROR (Missing_env
               (filter (\<lambda>var. case getenv var of None \<Rightarrow> True | Some v \<Rightarrow> v = [])
                  required_envs)) s)"
    if "\<exists>var \<in> set required_envs. getenv var = None \<or> getenv var = Some []"
    using missing_nonempty [OF that] by (simp add: main_cases)
  show "fst (main getenv c e s) = 1" if "mkdir_fails e \<or> bucket_init e \<noteq> None"
    using that by (simp add: main_cases)
  show "fst (main getenv c e s) = 1" if "dump_fails e"
    using that by (simp add: main_cases execute_dump_fails)
  show "fst (main getenv c e s) = 1" if "gzip_fault e \<noteq> None"
    using that by (simp add: main_cases execute_gzip_fails)
  show "fst (main getenv c e s) = 1" if "put_result e \<noteq> None"
    using that by (simp add: main_cases execute_upload_fails_gen)
qed

text \<open>The process of the concrete installation: configuration complete, manager built.\<close>

lemma main_getenv0:
  "main getenv0 cfg0 env0 s
     = (if fst (execute self0 env0 (emit Mkdir s)) then 0 else 1,
        snd (execute self0 env0 (emit Mkdir s)))"
proof -
  have m: "mkdir_fails env0 = False" "bucket_init env0 = None"
    by (simp_all add: env0_def)
  have today0: "\<lparr>cfg = cfg0, today = strftime_Ymd (dt_date (now_init env0))\<rparr> = self0"
    by (simp add: self0_def env0_def strftime_Ymd_def digit_char_def)
  have g: "filter (\<lambda>var. case getenv0 var of None \<Rightarrow> True | Some v \<Rightarrow> v = []) required_envs = []"
    by (simp add: getenv0_def required_envs_def)
  show ?thesis
    unfolding main_cases g by (simp add: m today0)
qed

lemma execute_after_init_s0:
  "execute self0 env0 (emit Mkdir s0) =
    (True,
     \<lparr>local_dir = [(''notes.txt'', ''n''), (''shop_20240310.sql.gz'', ''GZ:CREATE TABLE t;'')],
      oss = [(''mysql-backups/shop_20240310.sql.gz'', ''GZ:CREATE TABLE t;'')],
      trace = [Mkdir, Call Run_mysqldump, Open_wb ''shop_20240310.sql'', Subprocess_run,
         Open_wb ''shop_20240310.sql.gz'', Gzip_done ''shop_20240310.sql.gz'',
         Unlink ''shop_20240310.sql'', Logger INFO (Local_backup_ok ''shop_20240310.sql.gz''),
         Call Upload_to_oss, Put_object ''mysql-backups/shop_20240310.sql.gz'',
         Logger INFO (Oss_upload_ok ''mysql-backups/shop_20240310.sql.gz''),
         Call Clean_local_backups, Glob, Unlink ''shop_20240306.sql.gz'',
         Logger INFO (Local_deleted ''shop_20240306.sql.gz''), Unlink ''shop_20240307.sql.gz'',
         Logger INFO (Local_deleted ''shop_20240307.sql.gz''), Logger INFO Flow_done]\<rparr>)"
proof -
  have b: "run_mysqldump self0 env0 (emit Mkdir s0) =
    (Inr ''shop_20240310.sql.gz'',
     \<lparr>local_dir = [(''shop_20240306.sql.gz'', ''a''), (''shop_20240307.sql.gz'', ''b''),
          (''notes.txt'', ''n''), (''shop_20240310.sql.gz'', ''GZ:CREATE TABLE t;'')],
      oss = [],
      trace = [Mkdir, Call Run_mysqldump, Open_wb ''shop_20240310.sql'', Subprocess_run,
         Open_wb ''shop_20240310.sql.gz'', Gzip_done ''shop_20240310.sql.gz'',
         Unlink ''shop_20240310.sql'',
         Logger INFO (Local_backup_ok ''shop_20240310.sql.gz'')]\<rparr>)"
    by (simp add: run_mysqldump_ok dump_fails_def emit_def cfg0_def self0_def s0_def dump_file_def
        gz_file_eq env0_def)
  have u: "upload_to_oss self0 env0 ''shop_20240310.sql.gz''
     \<lparr>local_dir = [(''shop_20240306.sql.gz'', ''a''), (''shop_20240307.sql.gz'', ''b''),
          (''notes.txt'', ''n''), (''shop_20240310.sql.gz'', ''GZ:CREATE TABLE t;'')],
      oss = [], trace = tr\<rparr>
    = (None, \<lparr>local_dir = [(''shop_20240306.sql.gz'', ''a''), (''shop_20240307.sql.gz'', ''b''),
          (''notes.txt'', ''n''), (''shop_20240310.sql.gz'', ''GZ:CREATE TABLE t;'')],
      oss = [(''mysql-backups/shop_20240310.sql.gz'', ''GZ:CREATE TABLE t;'')],
      trace = tr @ [Call Upload_to_oss, Put_object ''mysql-backups/shop_20240310.sql.gz'',
         Logger INFO (Oss_upload_ok ''mysql-backups/shop_20240310.sql.gz'')]\<rparr>)" for tr
    by (simp add: upload_to_oss_def emit_def log_def Let_def env0_def self0_def cfg0_def)
  show ?thesis
    by (simp add: execute_def b u sweep_s0 log_def)
qed

lemma execute_after_init_s_bad:
  "execute self0 env0 (emit Mkdir s_bad) =
    (False, \<lparr>local_dir = [(''notes.sql.gz'', ''n''), (''shop_20240101.sql.gz'', ''old''),
          (''shop_20240310.sql.gz'', ''GZ:CREATE TABLE t;'')],
      oss = [(''mysql-backups/notes.sql.gz'', ''n''),
             (''mysql-backups/shop_20240101.sql.gz'', ''old''),
             (''mysql-backups/shop_20240310.sql.gz'', ''GZ:CREATE TABLE t;'')],
      trace = [Mkdir, Call Run_mysqldump, Open_wb ''shop_20240310.sql'', Subprocess_run,
         Open_wb ''shop_20240310.sql.gz'', Gzip_done ''shop_20240310.sql.gz'',
         Unlink ''shop_20240310.sql'', Logger INFO (Local_backup_ok ''shop_20240310.sql.gz''),
         Call Upload_to_oss, Put_object ''mysql-backups/shop_20240310.sql.gz'',
         Logger INFO (Oss_upload_ok ''mysql-backups/shop_20240310.sql.gz''),
         Call Clean_local_backups, Glob, Logger CRITICAL (Flow_aborted ValueError)]\<rparr>)"
proof -
  have r: "run_mysqldump self0 env0 (emit Mkdir s_bad) =
    (Inr ''shop_20240310.sql.gz'',
     \<lparr>local_dir = [(''notes.sql.gz'', ''n''), (''shop_20240101.sql.gz'', ''old''),
          (''shop_20240310.sql.gz'', ''GZ:CREATE TABLE t;'')],
      oss = [(''mysql-backups/notes.sql.gz'', ''n''),
             (''mysql-backups/shop_20240101.sql.gz'', ''old'')],
      trace = [Mkdir, Call Run_mysqldump, Open_wb ''shop_20240310.sql'', Subprocess_run,
         Open_wb ''shop_20240310.sql.gz'', Gzip_done ''shop_20240310.sql.gz'',
         Unlink ''shop_20240310.sql'', Logger INFO (Local_backup_ok ''shop_20240310.sql.gz'')]\<rparr>)"
    by (simp add: run_mysqldump_ok dump_fails_def emit_def cfg0_def self0_def s_bad_def
        dump_file_def gz_file_eq env0_def)
  have u: "upload_to_oss self0 env0 ''shop_20240310.sql.gz''
     \<lparr>local_dir = [(''notes.sql.gz'', ''n''), (''shop_20240101.sql.gz'', ''old''),
          (''shop_20240310.sql.gz'', ''GZ:CREATE TABLE t;'')],
      oss = [(''mysql-backups/notes.sql.gz'', ''n''),
             (''mysql-backups/shop_20240101.sql.gz'', ''old'')], trace = tr\<rparr>
    = (None, \<lparr>local_dir = [(''notes.sql.gz'', ''n''), (''shop_20240101.sql.gz'', ''old''),
          (''shop_20240310.sql.gz'', ''GZ:CREATE TABLE t;'')],
      oss = [(''mysql-backups/notes.sql.gz'', ''n''),
             (''mysql-backups/shop_20240101.sql.gz'', ''old''),
             (''mysql-backups/shop_20240310.sql.gz'', ''GZ:CREATE TABLE t;'')],
      trace = tr @ [Call Upload_to_oss, Put_object ''mysql-backups/shop_20240310.sql.gz'',
         Logger INFO (Oss_upload_ok ''mysql-backups/shop_20240310.sql.gz'')]\<rparr>)" for tr
    by (simp add: upload_to_oss_def emit_def log_def Let_def env0_def self0_def cfg0_def)
  show ?thesis
    by (simp add: execute_def r u sweep_s_bad log_def)
qed

text \<open>
  Claim C7 at a failing input.  Every required variable is set, the manager is built,
  and the dump, the compression and the upload succeed.  With the local directory of
  \<open>s0\<close> the process ends with status 0.  With a local directory that lists
  \<open>notes.sql.gz\<close> the same process ends with status 1: the backup of the day has been
  written and uploaded, and then the \<^verbatim>\<open>ValueError\<close> that \<^verbatim>\<open>strptime\<close> raises in the
  local sweep, outside any \<^verbatim>\<open>try\<close>, reaches the handler of \<^verbatim>\<open>execute\<close>.  No dump,
  compression or upload failure occurred, and the remote sweep guards the same call.
\<close>

theorem exit_one_though_backup_uploaded:
  "map getenv0 required_envs
     = [Some ''backup'', Some ''secret'', Some ''shop'', Some ''LTAI5tExampleKeyId'',
        Some ''ExampleKeySecret'', Some ''https://oss-cn-hangzhou.aliyuncs.com'',
        Some ''shop-backups'']
   \<and> \<not> mkdir_fails env0 \<and> bucket_init env0 = None
   \<and> dump_launch env0 = None \<and> dump_returncode env0 = 0
   \<and> gzip_fault env0 = None \<and> put_result env0 = None
   \<and> main getenv0 cfg0 env0 s0 =
       (0, \<lparr>local_dir = [(''notes.txt'', ''n''),
                          (''shop_20240310.sql.gz'', ''GZ:CREATE TABLE t;'')],
             oss = [(''mysql-backups/shop_20240310.sql.gz'', ''GZ:CREATE TABLE t;'')],
             trace = [Mkdir, Call Run_mysqldump, Open_wb ''shop_20240310.sql'', Subprocess_run,
               Open_wb ''shop_20240310.sql.gz'', Gzip_done ''shop_20240310.sql.gz'',
               Unlink ''shop_20240310.sql'',
               Logger INFO (Local_backup_ok ''shop_20240310.sql.gz''),
               Call Upload_to_oss, Put_object ''mysql-backups/shop_20240310.sql.gz'',
               Logger INFO (Oss_upload_ok ''mysql-backups/shop_20240310.sql.gz''),
               Call Clean_local_backups, Glob, Unlink ''shop_20240306.sql.gz'',
               Logger INFO (Local_deleted ''shop_20240306.sql.gz''),
               Unlink ''shop_20240307.sql.gz'',
               Logger INFO (Local_deleted ''shop_20240307.sql.gz''),
               Logger INFO Flow_done]\<rparr>)
   \<and> main getenv0 cfg0 env0 s_bad =
       (1, \<lparr>local_dir = [(''notes.sql.gz'', ''n''), (''shop_20240101.sql.gz'', ''old''),
                          (''shop_20240310.sql.gz'', ''GZ:CREATE TABLE t;'')],
             oss = [(''mysql-backups/notes.sql.gz'', ''n''),
                    (''mysql-backups/shop_20240101.sql.gz'', ''old''),
                    (''mysql-backups/shop_20240310.sql.gz'', ''GZ:CREATE TABLE t;'')],
             trace = [Mkdir, Call Run_mysqldump, Open_wb ''shop_20240310.sql'', Subprocess_run,
               Open_wb ''shop_20240310.sql.gz'', Gzip_done ''shop_20240310.sql.gz'',
               Unlink ''shop_20240310.sql'',
               Logger INFO (Local_backup_ok ''shop_20240310.sql.gz''),
               Call Upload_to_oss, Put_object ''mysql-backups/shop_20240310.sql.gz'',
               Logger INFO (Oss_upload_ok ''mysql-backups/shop_20240310.sql.gz''),
               Call Clean_local_backups, Glob,
               Logger CRITICAL (Flow_aborted ValueError)]\<rparr>)"
proof -
  have v: "map getenv0 required_envs
     = [Some ''backup'', Some ''secret'', Some ''shop'', Some ''LTAI5tExampleKeyId'',
        Some ''ExampleKeySecret'', Some ''https://oss-cn-hangzhou.aliyuncs.com'',
        Some ''shop-backups'']"
    by (simp add: getenv0_def required_envs_def)
  have m: "\<not> mkdir_fails env0" "bucket_init env0 = None" "dump_launch env0 = None"
    "dump_returncode env0 = 0" "gzip_fault env0 = None" "put_result env0 = None"
    by (simp_all add: env0_def)
  have a: "main getenv0 cfg0 env0 s0 = (0, snd (execute self0 env0 (emit Mkdir s0)))"
    by (simp add: main_getenv0 execute_after_init_s0)
  have b: "main getenv0 cfg0 env0 s_bad = (1, snd (execute self0 env0 (emit Mkdir s_bad)))"
    by (simp add: main_getenv0 execute_after_init_s_bad)
  show ?thesis
    unfolding a b by (simp add: v m execute_after_init_s0 execute_after_init_s_bad)
qed


section \<open>The default run and the bucket\<close>

text \<open>
  Claim C8.  No run of \<open>execute\<close> enters the remote sweep, lists the bucket or calls
  \<^verbatim>\<open>delete_object\<close>: the events of the remote sweep in the record are those that were
  there before the run.  The bucket after the run is the bucket before it, or that
  bucket with today's object put; every key it held it still holds.  The remote sweep
  is an operation of its own, recorded as such when it is called.
\<close>

theorem default_run_never_sweeps_bucket:
  "filter remote_sweep_event (trace (snd (execute self e s)))
     = filter remote_sweep_event (trace s)
   \<and> (oss (snd (execute self e s)) = oss s
        \<or> (\<exists>data. oss (snd (execute self e s))
              = AList.update (oss_prefix (cfg self) @ gz_file self) data (oss s)))
   \<and> fst ` set (oss s) \<subseteq> fst ` set (oss (snd (execute self e s)))
   \<and> Call Clean_oss_backups \<in> set (trace (snd (clean_oss_backups self e s)))"
proof -
  have standalone: "Call Clean_oss_backups \<in> set (trace (snd (clean_oss_backups self e s)))"
  proof (cases "cutoff_date (now e) (keep_oss_days (cfg self))")
    case (Inl x)
    then show ?thesis by (simp add: clean_oss_backups_def Let_def emit_def)
  next
    case (Inr c)
    have grows: "set (trace t) \<subseteq> set (trace (oss_loop e c ks t))" for ks t
    proof (induction ks arbitrary: t)
      case Nil
      then show ?case by simp
    next
      case (Cons k ks)
      show ?case
        using Cons.IH
        by (cases "strptime_Ymd (file_date_str (path_name k))")
           (force simp: log_def emit_def delete_object_cases)+
    qed
    let ?t0 = "emit (List_objects (oss_prefix (cfg self))) (emit (Call Clean_oss_backups) s)"
    from clean_oss_backups_result [OF Inr, of s] obtain ks
      where "set ks \<subseteq> set (list_objects (oss_prefix (cfg self)) s)
        \<and> snd (clean_oss_backups self e s) = oss_loop e c ks ?t0
        \<and> (list_fault e = None \<longrightarrow> fst (clean_oss_backups self e s) = None)" ..
    then have ks: "snd (clean_oss_backups self e s) = oss_loop e c ks ?t0"
      by simp
    have "Call Clean_oss_backups \<in> set (trace ?t0)"
      by (simp add: emit_def)
    with grows [of ?t0 ks] show ?thesis
      unfolding ks by blast
  qed
  have run: "filter remote_sweep_event (trace (snd (execute self e s)))
     = filter remote_sweep_event (trace s)
   \<and> (oss (snd (execute self e s)) = oss s
        \<or> (\<exists>data. oss (snd (execute self e s))
              = AList.update (oss_prefix (cfg self) @ gz_file self) data (oss s)))"
  proof (cases "run_mysqldump self e s")
    case (Pair r s1)
    show ?thesis
    proof (cases r)
      case (Inl x)
      show ?thesis
      proof (cases "dump_fails e")
        case True
        from run_mysqldump_dump_fails [OF this, of self s] Pair Inl show ?thesis
          by (auto simp: execute_def log_def split: if_splits)
      next
        case False
        show ?thesis
        proof (cases "gzip_fault e")
          case (Some part)
          from run_mysqldump_gzip_fails [OF False Some, of self s] Pair Inl show ?thesis
            by (auto simp: execute_def log_def split: if_splits)
        next
          case None
          from run_mysqldump_ok [OF False None, of self s] Pair Inl show ?thesis
            by (auto simp: execute_def log_def split: if_splits)
        qed
      qed
    next
      case (Inr p)
      with Pair have r: "run_mysqldump self e s = (Inr p, s1)" by simp
      note st = run_mysqldump_Inr_state [OF r]
      have gz: "map_of (local_dir s1) (gz_file self) = Some (gzip e (dump_stdout e))"
        by (rule run_mysqldump_Inr_gz(1) [OF r])
      have t1: "filter remote_sweep_event (trace s1) = filter remote_sweep_event (trace s)"
        and o1: "oss s1 = oss s"
        by (simp_all add: st(2))
      show ?thesis
      proof (cases "put_result e")
        case (Some x)
        from upload_to_oss_fails [OF gz Some, of self] t1 o1 show ?thesis
          by (simp add: execute_def r st(1) log_def)
      next
        case None
        note u = upload_to_oss_ok [OF gz None, of self]
        let ?s2 = "snd (upload_to_oss self e (gz_file self) s1)"
        have t2: "filter remote_sweep_event (trace ?s2) = filter remote_sweep_event (trace s)"
          and o2: "oss ?s2 = AList.update (oss_prefix (cfg self) @ gz_file self)
                               (gzip e (dump_stdout e)) (oss s)"
          using t1 o1 by (simp_all add: u)
        note fr = clean_local_backups_frame [of self e ?s2]
        show ?thesis
          using fr t2 o2
          by (cases "clean_local_backups self e ?s2")
             (auto simp: execute_def r st(1) u log_def split: option.splits)
      qed
    qed
  qed
  have keys: "fst ` set (oss s) \<subseteq> fst ` set (oss (snd (execute self e s)))"
    using run by (force simp: dom_update)
  show ?thesis using run keys standalone by blast
qed

text \<open>
  On the bucket with an old backup a run keeps the expired object that the remote
  sweep, called on its own, deletes.
\<close>

theorem default_run_never_sweeps_bucket_witness:
  "filter remote_sweep_event (trace (snd (execute self0 env0 s_bad))) = []
   \<and> map_of (oss (snd (execute self0 env0 s_bad))) ''mysql-backups/shop_20240101.sql.gz''
       = Some ''old''
   \<and> map_of (oss (snd (clean_oss_backups self0 env0 s_bad))) ''mysql-backups/shop_20240101.sql.gz''
       = None
   \<and> Call Clean_oss_backups \<in> set (trace (snd (clean_oss_backups self0 env0 s_bad)))"
proof -
  have t: "filter remote_sweep_event (trace s_bad) = []"
    by (simp add: s_bad_def)
  note d = default_run_never_sweeps_bucket [of self0 env0 s_bad, unfolded t]
  have "map_of (oss (snd (execute self0 env0 s_bad))) ''mysql-backups/shop_20240101.sql.gz''
       = Some ''old''"
    by (simp add: execute_s_bad)
  moreover
  have "map_of (oss (snd (clean_oss_backups self0 env0 s_bad))) ''mysql-backups/shop_20240101.sql.gz''
       = None"
    by (simp add: remote_sweep_s_bad)
  ultimately show ?thesis
    using d by blast
qed


section \<open>One artifact per day and store\<close>

lemma entries_absent: "k \<notin> fst ` set al \<Longrightarrow> entries k al = []"
  by (induction al) (auto simp: entries_def)

lemma entries_update:
  "distinct (map fst al) \<Longrightarrow> entries k (AList.update k v al) = [(k, v)]"
proof (induction al)
  case Nil
  then show ?case by (simp add: entries_def)
next
  case (Cons p al)
  show ?case
  proof (cases "fst p = k")
    case True
    with Cons.prems have "k \<notin> fst ` set al" by auto
    from entries_absent [OF this] True show ?thesis
      by (simp add: entries_def)
  next
    case False
    with Cons show ?thesis by (simp add: entries_def)
  qed
qed

lemma set_update_other:
  "(n, v) \<in> set (AList.update k w al) \<Longrightarrow> n = k \<or> (n, v) \<in> set al"
  by (induction al) (auto split: if_splits)

lemma entries_delete_other:
  "k \<noteq> k' \<Longrightarrow> entries k (AList.delete k' al) = entries k al"
  by (induction al) (auto simp: entries_def)

lemma entries_filter_key:
  "entries k (filter (\<lambda>kv. Q (fst kv)) al) = (if Q k then entries k al else [])"
  by (induction al) (auto simp: entries_def)

lemma distinct_filter_keys:
  "distinct (map fst al) \<Longrightarrow> distinct (map fst (filter P al))"
  by (induction al) auto

lemma execute_True:
  assumes "execute self e s = (True, s')"
  shows "\<exists>s1 s2 s3. run_mysqldump self e s = (Inr (gz_file self), s1)
     \<and> upload_to_oss self e (gz_file self) s1 = (None, s2)
     \<and> clean_local_backups self e s2 = (None, s3)
     \<and> s' = log INFO Flow_done s3"
proof (cases "run_mysqldump self e s")
  case (Pair r s1)
  show ?thesis
  proof (cases r)
    case (Inl x)
    with Pair assms show ?thesis by (simp add: execute_def)
  next
    case (Inr p)
    with Pair have r: "run_mysqldump self e s = (Inr p, s1)" by simp
    have p: "p = gz_file self" by (rule run_mysqldump_Inr_state(1) [OF r])
    obtain u s2 where u: "upload_to_oss self e (gz_file self) s1 = (u, s2)"
      by (cases "upload_to_oss self e (gz_file self) s1")
    obtain c s3 where c: "clean_local_backups self e s2 = (c, s3)"
      by (cases "clean_local_backups self e s2")
    from assms r p u c show ?thesis
      by (cases u; cases c) (simp_all add: execute_def)
  qed
qed

lemma one_run:
  assumes dl: "distinct (map fst (local_dir s))" and dr: "distinct (map fst (oss s))"
    and x: "execute self e s = (True, s')"
    and ne: "\<not> expired_local self e (gz_file self)"
  shows "entries (gz_file self) (local_dir s') = [(gz_file self, gzip e (dump_stdout e))]"
    and "oss s' = AList.update (oss_prefix (cfg self) @ gz_file self)
                    (gzip e (dump_stdout e)) (oss s)"
    and "entries (oss_prefix (cfg self) @ gz_file self) (oss s')
           = [(oss_prefix (cfg self) @ gz_file self, gzip e (dump_stdout e))]"
    and "\<not> exists_file (dump_file self) s'"
    and "\<forall>n v. (n, v) \<in> set (local_dir s') \<longrightarrow> n = gz_file self \<or> (n, v) \<in> set (local_dir s)"
    and "distinct (map fst (local_dir s'))" and "distinct (map fst (oss s'))"
proof -
  let ?gz = "gz_file self" and ?Z = "gzip e (dump_stdout e)"
  let ?key = "oss_prefix (cfg self) @ gz_file self"
  from execute_True [OF x] obtain s1 s2 s3
    where r: "run_mysqldump self e s = (Inr ?gz, s1)"
      and u: "upload_to_oss self e ?gz s1 = (None, s2)"
      and c: "clean_local_backups self e s2 = (None, s3)"
      and s': "s' = log INFO Flow_done s3"
    by blast
  note st = run_mysqldump_Inr_state(2) [OF r]
  have l1: "local_dir s1 = AList.delete (dump_file self) (AList.update ?gz ?Z (local_dir s))"
    and o1: "oss s1 = oss s"
    by (simp_all add: st)
  have gz: "map_of (local_dir s1) ?gz = Some ?Z"
    by (rule run_mysqldump_Inr_gz(1) [OF r])
  have pn: "put_result e = None"
  proof (cases "put_result e")
    case (Some y)
    from upload_to_oss_fails [OF gz Some, of self] u show ?thesis by simp
  qed simp
  from upload_to_oss_ok [OF gz pn, of self] u
  have l2: "local_dir s2 = local_dir s1" and o2: "oss s2 = AList.update ?key ?Z (oss s)"
    by (auto simp: o1)
  from clean_local_backups_None [OF c] obtain cut
    where cut: "cutoff_date (now e) (keep_local_days (cfg self)) = Inr cut"
      and l3: "local_dir s3 = filter (\<lambda>kv. \<not> (endswith ''.sql.gz'' (fst kv) \<and> expired cut (fst kv)
                                      \<and> \<not> unlink_fails e (fst kv))) (local_dir s2)"
      and o3: "oss s3 = oss s2"
    by blast
  have keep: "\<not> (endswith ''.sql.gz'' ?gz \<and> expired cut ?gz \<and> \<not> unlink_fails e ?gz)"
    using ne cut by (simp add: expired_local_def)
  have l': "local_dir s' = local_dir s3" and o': "oss s' = oss s3"
    by (simp_all add: s' log_def)
  have "entries ?gz (local_dir s3) = entries ?gz (local_dir s2)"
    unfolding l3
    using keep
      entries_filter_key [of ?gz "\<lambda>k. \<not> (endswith ''.sql.gz'' k \<and> expired cut k \<and> \<not> unlink_fails e k)"
         "local_dir s2"]
    by simp
  also have "\<dots> = entries ?gz (AList.update ?gz ?Z (local_dir s))"
    using dump_neq_gz [of self] by (simp add: l2 l1 entries_delete_other)
  also have "\<dots> = [(?gz, ?Z)]"
    by (rule entries_update [OF dl])
  finally show "entries ?gz (local_dir s') = [(?gz, ?Z)]"
    by (simp add: l')
  show "oss s' = AList.update ?key ?Z (oss s)"
    by (simp add: o' o3 o2)
  then show "entries ?key (oss s') = [(?key, ?Z)]"
    by (simp add: entries_update [OF dr])
  have "map_of (local_dir s1) (dump_file self) = None"
    using run_mysqldump_Inr_gz(2) [OF r] by (simp add: exists_file_def)
  then have "dump_file self \<notin> fst ` set (local_dir s1)"
    by (simp add: map_of_eq_None_iff)
  then have "dump_file self \<notin> fst ` set (local_dir s')"
    by (auto simp: l' l3 l2)
  then show "\<not> exists_file (dump_file self) s'"
    by (simp add: exists_file_def map_of_eq_None_iff)
  have sub: "(n, v) \<in> set (local_dir s1) \<Longrightarrow> n = ?gz \<or> (n, v) \<in> set (local_dir s)" for n v
    unfolding l1 by (auto simp: AList.delete_eq dest: set_update_other)
  show "\<forall>n v. (n, v) \<in> set (local_dir s') \<longrightarrow> n = ?gz \<or> (n, v) \<in> set (local_dir s)"
    using sub by (auto simp: l' l3 l2)
  show "distinct (map fst (local_dir s'))"
    by (simp add: l' l3 l2 l1 distinct_filter_keys distinct_delete distinct_update dl)
  show "distinct (map fst (oss s'))"
    by (simp add: o' o3 o2 distinct_update dr)
qed

text \<open>
  Claim C5, as amended.  Two successful runs in succession with the same date of the
  day, on stores whose names are distinct, each run with a sweep that does not find
  today's own artifact expired.  The compressed file is named
  \<^verbatim>\<open>{database}_{today}.sql.gz\<close> and the object has that name behind the prefix.  After
  the first run each store holds exactly one entry of that name, with the compressed
  dump of that run; the bucket is the old bucket with that one object put, and every
  other local entry was there before.  After the second run each store again holds
  exactly one entry of that name, now with the compressed dump of the second run.
\<close>

theorem successful_run_one_artifact_per_store:
  assumes "distinct (map fst (local_dir s))" and "distinct (map fst (oss s))"
    and "execute self e1 s = (True, s1)" and "\<not> expired_local self e1 (gz_file self)"
    and "execute self e2 s1 = (True, s2)" and "\<not> expired_local self e2 (gz_file self)"
  shows "gz_file self = mysql_database (cfg self) @ ''_'' @ today self @ ''.sql.gz''
    \<and> entries (gz_file self) (local_dir s1) = [(gz_file self, gzip e1 (dump_stdout e1))]
    \<and> entries (oss_prefix (cfg self) @ gz_file self) (oss s1)
        = [(oss_prefix (cfg self) @ gz_file self, gzip e1 (dump_stdout e1))]
    \<and> oss s1 = AList.update (oss_prefix (cfg self) @ gz_file self)
                  (gzip e1 (dump_stdout e1)) (oss s)
    \<and> (\<forall>n v. (n, v) \<in> set (local_dir s1) \<longrightarrow> n = gz_file self \<or> (n, v) \<in> set (local_dir s))
    \<and> entries (gz_file self) (local_dir s2) = [(gz_file self, gzip e2 (dump_stdout e2))]
    \<and> entries (oss_prefix (cfg self) @ gz_file self) (oss s2)
        = [(oss_prefix (cfg self) @ gz_file self, gzip e2 (dump_stdout e2))]"
proof -
  note first = one_run [OF assms(1) assms(2) assms(3) assms(4)]
  note second = one_run [OF first(6) first(7) assms(5) assms(6)]
  show ?thesis
    using gz_file_eq [of self] first(1) first(3) first(2) first(5) second(1) second(3)
    by blast
qed

lemma execute_second:
  "execute self0 env_second
     \<lparr>local_dir = [(''notes.txt'', ''n''), (''shop_20240310.sql.gz'', ''GZ:CREATE TABLE t;'')],
      oss = [(''mysql-backups/shop_20240310.sql.gz'', ''GZ:CREATE TABLE t;'')],
      trace = tr\<rparr>
   = (True,
     \<lparr>local_dir = [(''notes.txt'', ''n''),
                   (''shop_20240310.sql.gz'', ''GZ:CREATE TABLE t; INSERT;'')],
      oss = [(''mysql-backups/shop_20240310.sql.gz'', ''GZ:CREATE TABLE t; INSERT;'')],
      trace = tr @ [Call Run_mysqldump, Open_wb ''shop_20240310.sql'', Subprocess_run,
         Open_wb ''shop_20240310.sql.gz'', Gzip_done ''shop_20240310.sql.gz'',
         Unlink ''shop_20240310.sql'', Logger INFO (Local_backup_ok ''shop_20240310.sql.gz''),
         Call Upload_to_oss, Put_object ''mysql-backups/shop_20240310.sql.gz'',
         Logger INFO (Oss_upload_ok ''mysql-backups/shop_20240310.sql.gz''),
         Call Clean_local_backups, Glob, Logger INFO Flow_done]\<rparr>)"
proof -
  let ?s = "\<lparr>local_dir = [(''notes.txt'', ''n''), (''shop_20240310.sql.gz'', ''GZ:CREATE TABLE t;'')],
      oss = [(''mysql-backups/shop_20240310.sql.gz'', ''GZ:CREATE TABLE t;'')],
      trace = tr\<rparr>"
  have r: "run_mysqldump self0 env_second ?s =
    (Inr ''shop_20240310.sql.gz'',
     \<lparr>local_dir = [(''notes.txt'', ''n''),
                   (''shop_20240310.sql.gz'', ''GZ:CREATE TABLE t; INSERT;'')],
      oss = [(''mysql-backups/shop_20240310.sql.gz'', ''GZ:CREATE TABLE t;'')],
      trace = tr @ [Call Run_mysqldump, Open_wb ''shop_20240310.sql'', Subprocess_run,
         Open_wb ''shop_20240310.sql.gz'', Gzip_done ''shop_20240310.sql.gz'',
         Unlink ''shop_20240310.sql'', Logger INFO (Local_backup_ok ''shop_20240310.sql.gz'')]\<rparr>)"
    by (simp add: run_mysqldump_ok dump_fails_def cfg0_def self0_def dump_file_def gz_file_eq env_second_def
        env0_def)
  have u: "upload_to_oss self0 env_second ''shop_20240310.sql.gz''
     \<lparr>local_dir = [(''notes.txt'', ''n''),
                   (''shop_20240310.sql.gz'', ''GZ:CREATE TABLE t; INSERT;'')],
      oss = [(''mysql-backups/shop_20240310.sql.gz'', ''GZ:CREATE TABLE t;'')], trace = t\<rparr>
    = (None, \<lparr>local_dir = [(''notes.txt'', ''n''),
                   (''shop_20240310.sql.gz'', ''GZ:CREATE TABLE t; INSERT;'')],
      oss = [(''mysql-backups/shop_20240310.sql.gz'', ''GZ:CREATE TABLE t; INSERT;'')],
      trace = t @ [Call Upload_to_oss, Put_object ''mysql-backups/shop_20240310.sql.gz'',
         Logger INFO (Oss_upload_ok ''mysql-backups/shop_20240310.sql.gz'')]\<rparr>)" for t
    by (simp add: upload_to_oss_def emit_def log_def Let_def env_second_def env0_def self0_def
        cfg0_def)
  have c: "clean_local_backups self0 env_second
     \<lparr>local_dir = [(''notes.txt'', ''n''),
                   (''shop_20240310.sql.gz'', ''GZ:CREATE TABLE t; INSERT;'')],
      oss = bk, trace = t\<rparr>
    = (None, \<lparr>local_dir = [(''notes.txt'', ''n''),
                   (''shop_20240310.sql.gz'', ''GZ:CREATE TABLE t; INSERT;'')],
      oss = bk, trace = t @ [Call Clean_local_backups, Glob]\<rparr>)" for bk t
    by (simp add: sweep_defs parse_names ord_examples self0_def cfg0_def env_second_def env0_def)
  show ?thesis
    by (simp add: execute_def r u c log_def)
qed

lemma today_not_expired:
  "\<not> expired_local self0 env0 ''shop_20240310.sql.gz''"
  "\<not> expired_local self0 env_second ''shop_20240310.sql.gz''"
  by (simp_all add: expired_local_def cutoff_date_def expired_def before_cutoff_def parse_names
        ord_examples self0_def cfg0_def env0_def env_second_def Let_def)

theorem successful_run_one_artifact_per_store_witness:
  "distinct (map fst (local_dir s0)) \<and> distinct (map fst (oss s0))
   \<and> fst (execute self0 env0 s0) = True
   \<and> fst (execute self0 env_second (snd (execute self0 env0 s0))) = True
   \<and> entries ''shop_20240310.sql.gz'' (local_dir (snd (execute self0 env0 s0)))
       = [(''shop_20240310.sql.gz'', ''GZ:CREATE TABLE t;'')]
   \<and> entries ''mysql-backups/shop_20240310.sql.gz'' (oss (snd (execute self0 env0 s0)))
       = [(''mysql-backups/shop_20240310.sql.gz'', ''GZ:CREATE TABLE t;'')]
   \<and> entries ''shop_20240310.sql.gz''
        (local_dir (snd (execute self0 env_second (snd (execute self0 env0 s0)))))
       = [(''shop_20240310.sql.gz'', ''GZ:CREATE TABLE t; INSERT;'')]
   \<and> entries ''mysql-backups/shop_20240310.sql.gz''
        (oss (snd (execute self0 env_second (snd (execute self0 env0 s0)))))
       = [(''mysql-backups/shop_20240310.sql.gz'', ''GZ:CREATE TABLE t; INSERT;'')]"
proof -
  have d: "distinct (map fst (local_dir s0))" "distinct (map fst (oss s0))"
    by (simp_all add: s0_def)
  have f1: "fst (execute self0 env0 s0) = True"
    by (simp add: execute_env0)
  then have x1: "execute self0 env0 s0 = (True, snd (execute self0 env0 s0))"
    by (simp add: prod_eq_iff)
  have f2: "fst (execute self0 env_second (snd (execute self0 env0 s0))) = True"
    by (simp add: execute_env0 execute_second)
  then have x2: "execute self0 env_second (snd (execute self0 env0 s0))
      = (True, snd (execute self0 env_second (snd (execute self0 env0 s0))))"
    by (simp add: prod_eq_iff)
  have g: "gz_file self0 = ''shop_20240310.sql.gz''"
    and p: "oss_prefix (cfg self0) @ gz_file self0 = ''mysql-backups/shop_20240310.sql.gz''"
    and z1: "gzip env0 (dump_stdout env0) = ''GZ:CREATE TABLE t;''"
    and z2: "gzip env_second (dump_stdout env_second) = ''GZ:CREATE TABLE t; INSERT;''"
    by (simp_all add: concrete_defs env_second_def)
  note n = today_not_expired [folded g]
  note t = successful_run_one_artifact_per_store [OF d(1) d(2) x1 n(1) x2 n(2),
              unfolded p, unfolded g z1 z2]
  show ?thesis
    using d f1 f2 t by blast
qed

text \<open>
  Claim C5 as written speaks of every valid configuration.  With one day of local
  retention and a run that starts before midnight and sweeps after it, and likewise
  with no day of local retention, the run succeeds and its sweep removes the
  compressed file the same run has just made: no local file of today's name is left,
  nor is one left by a second run on the same day.
\<close>

theorem todays_artifact_swept_counterexample:
  "today self_keep1 = strftime_Ymd (dt_date (now_init env_next_day))
   \<and> keep_local_days (cfg self_keep1) = 1
   \<and> fst (execute self_keep1 env_next_day s0) = True
   \<and> local_dir (snd (execute self_keep1 env_next_day s0)) = [(''notes.txt'', ''n'')]
   \<and> entries ''shop_20240310.sql.gz'' (local_dir (snd (execute self_keep1 env_next_day s0))) = []
   \<and> today self_keep0 = strftime_Ymd (dt_date (now_init env0))
   \<and> keep_local_days (cfg self_keep0) = 0
   \<and> fst (execute self_keep0 env0 s0) = True
   \<and> local_dir (snd (execute self_keep0 env0 s0)) = [(''notes.txt'', ''n'')]
   \<and> entries ''shop_20240310.sql.gz'' (local_dir (snd (execute self_keep0 env0 s0))) = []
   \<and> fst (execute self_keep0 env_second (snd (execute self_keep0 env0 s0))) = True
   \<and> entries ''shop_20240310.sql.gz''
        (local_dir (snd (execute self_keep0 env_second (snd (execute self_keep0 env0 s0))))) = []"
proof -
  let ?d1 = "[(''shop_20240306.sql.gz'', ''a''), (''shop_20240307.sql.gz'', ''b''),
          (''notes.txt'', ''n''), (''shop_20240310.sql.gz'', ''GZ:CREATE TABLE t;'')]"
  let ?t1 = "[Call Run_mysqldump, Open_wb ''shop_20240310.sql'', Subprocess_run,
         Open_wb ''shop_20240310.sql.gz'', Gzip_done ''shop_20240310.sql.gz'',
         Unlink ''shop_20240310.sql'', Logger INFO (Local_backup_ok ''shop_20240310.sql.gz'')]"
  let ?bk = "[(''mysql-backups/shop_20240310.sql.gz'', ''GZ:CREATE TABLE t;'')]"
  let ?up = "[Call Upload_to_oss, Put_object ''mysql-backups/shop_20240310.sql.gz'',
         Logger INFO (Oss_upload_ok ''mysql-backups/shop_20240310.sql.gz'')]"
  have r1: "run_mysqldump self_keep1 env_next_day s0
      = (Inr ''shop_20240310.sql.gz'', \<lparr>local_dir = ?d1, oss = [], trace = ?t1\<rparr>)"
    by (simp add: run_mysqldump_ok dump_fails_def cfg0_def self_keep1_def s0_def dump_file_def gz_file_eq
        env_next_day_def env0_def)
  have r0: "run_mysqldump self_keep0 env0 s0
      = (Inr ''shop_20240310.sql.gz'', \<lparr>local_dir = ?d1, oss = [], trace = ?t1\<rparr>)"
    by (simp add: run_mysqldump_ok dump_fails_def cfg0_def self_keep0_def s0_def dump_file_def gz_file_eq
        env0_def)
  have u1: "upload_to_oss self_keep1 env_next_day ''shop_20240310.sql.gz''
       \<lparr>local_dir = ?d1, oss = [], trace = t\<rparr>
      = (None, \<lparr>local_dir = ?d1, oss = ?bk, trace = t @ ?up\<rparr>)" for t
    by (simp add: upload_to_oss_def emit_def log_def Let_def env_next_day_def env0_def
        self_keep1_def cfg0_def)
  have u0: "upload_to_oss self_keep0 env0 ''shop_20240310.sql.gz''
       \<lparr>local_dir = ?d1, oss = [], trace = t\<rparr>
      = (None, \<lparr>local_dir = ?d1, oss = ?bk, trace = t @ ?up\<rparr>)" for t
    by (simp add: upload_to_oss_def emit_def log_def Let_def env0_def self_keep0_def cfg0_def)
  let ?sw = "[Call Clean_local_backups, Glob, Unlink ''shop_20240306.sql.gz'',
         Logger INFO (Local_deleted ''shop_20240306.sql.gz''), Unlink ''shop_20240307.sql.gz'',
         Logger INFO (Local_deleted ''shop_20240307.sql.gz''), Unlink ''shop_20240310.sql.gz'',
         Logger INFO (Local_deleted ''shop_20240310.sql.gz'')]"
  have c1: "clean_local_backups self_keep1 env_next_day \<lparr>local_dir = ?d1, oss = bk, trace = t\<rparr>
      = (None, \<lparr>local_dir = [(''notes.txt'', ''n'')], oss = bk, trace = t @ ?sw\<rparr>)" for bk t
    by (simp add: sweep_defs parse_names ord_examples self_keep1_def cfg0_def env_next_day_def
        env0_def)
  have c0: "clean_local_backups self_keep0 env0 \<lparr>local_dir = ?d1, oss = bk, trace = t\<rparr>
      = (None, \<lparr>local_dir = [(''notes.txt'', ''n'')], oss = bk, trace = t @ ?sw\<rparr>)" for bk t
    by (simp add: sweep_defs parse_names ord_examples self_keep0_def cfg0_def env0_def)
  have x1: "fst (execute self_keep1 env_next_day s0) = True
      \<and> local_dir (snd (execute self_keep1 env_next_day s0)) = [(''notes.txt'', ''n'')]"
    by (simp add: execute_def r1 u1 c1 log_def)
  have x0: "execute self_keep0 env0 s0
      = (True, \<lparr>local_dir = [(''notes.txt'', ''n'')], oss = ?bk,
                 trace = ?t1 @ ?up @ ?sw @ [Logger INFO Flow_done]\<rparr>)"
    by (simp add: execute_def r0 u0 c0 log_def)
  let ?d2 = "[(''notes.txt'', ''n''), (''shop_20240310.sql.gz'', ''GZ:CREATE TABLE t; INSERT;'')]"
  let ?bk2 = "[(''mysql-backups/shop_20240310.sql.gz'', ''GZ:CREATE TABLE t; INSERT;'')]"
  have r2: "run_mysqldump self_keep0 env_second
        \<lparr>local_dir = [(''notes.txt'', ''n'')], oss = ?bk, trace = t\<rparr>
      = (Inr ''shop_20240310.sql.gz'', \<lparr>local_dir = ?d2, oss = ?bk, trace = t @ ?t1\<rparr>)" for t
    by (simp add: run_mysqldump_ok dump_fails_def cfg0_def self_keep0_def dump_file_def gz_file_eq
        env_second_def env0_def)
  have u2: "upload_to_oss self_keep0 env_second ''shop_20240310.sql.gz''
       \<lparr>local_dir = ?d2, oss = ?bk, trace = t\<rparr>
      = (None, \<lparr>local_dir = ?d2, oss = ?bk2, trace = t @ ?up\<rparr>)" for t
    by (simp add: upload_to_oss_def emit_def log_def Let_def env_second_def env0_def
        self_keep0_def cfg0_def)
  have c2: "clean_local_backups self_keep0 env_second \<lparr>local_dir = ?d2, oss = bk, trace = t\<rparr>
      = (None, \<lparr>local_dir = [(''notes.txt'', ''n'')], oss = bk,
           trace = t @ [Call Clean_local_backups, Glob, Unlink ''shop_20240310.sql.gz'',
             Logger INFO (Local_deleted ''shop_20240310.sql.gz'')]\<rparr>)" for bk t
    by (simp add: sweep_defs parse_names ord_examples self_keep0_def cfg0_def env_second_def
        env0_def)
  have x2: "fst (execute self_keep0 env_second (snd (execute self_keep0 env0 s0))) = True
      \<and> local_dir (snd (execute self_keep0 env_second (snd (execute self_keep0 env0 s0))))
          = [(''notes.txt'', ''n'')]"
    unfolding x0 by (simp add: execute_def r2 u2 c2 log_def)
  have t1: "today self_keep1 = strftime_Ymd (dt_date (now_init env_next_day))"
    and t0: "today self_keep0 = strftime_Ymd (dt_date (now_init env0))"
    and k1: "keep_local_days (cfg self_keep1) = 1" and k0: "keep_local_days (cfg self_keep0) = 0"
    by (simp_all add: self_keep1_def self_keep0_def env_next_day_def env0_def strftime_Ymd_def
        digit_char_def cfg0_def)
  show ?thesis
    using x1 x2 t1 t0 k1 k0 unfolding x0 by (simp add: entries_def)
qed

end
